theory Spec2Isabelle
  imports Complex_Main "HOL-Library.Char_ord" "HOL-Library.List_Lexorder"
begin

section \<open>Python values and builtins used by the code\<close>

text \<open>
  Python strings are modelled as \<^typ>\<open>string\<close> restricted to ASCII: case mapping
  touches the letters A-Z only and the whitespace characters are the ASCII ones that
  \<^verbatim>\<open>str.strip\<close> removes. A number read from JSON is the real number it denotes. The
  arithmetic of the length parser, the estimator and the zone reports is binary floating
  point, with its rounding, its infinities and NaN. Exceptions are values of
  \<^typ>\<open>'a + 'b\<close>, with \<open>Inl\<close> carrying the exception class.
\<close>

datatype py_error = KeyError | ValueError | TypeError | AttributeError | IndexError
  | OverflowError | ZeroDivisionError | ParseError

text \<open>
  \<open>ParseError\<close> is the failure kind the specification names; no class of that name
  exists in the repository, and no definition below produces it.
\<close>

fun and_then :: "py_error + 'a \<Rightarrow> ('a \<Rightarrow> py_error + 'b) \<Rightarrow> py_error + 'b" where
  "and_then (Inl e) f = Inl e"
| "and_then (Inr x) f = f x"

definition py_isspace :: "char \<Rightarrow> bool" where
  "py_isspace c \<longleftrightarrow> c \<in> set [CHR 0x09, CHR 0x0A, CHR 0x0B, CHR 0x0C, CHR 0x0D,
                                 CHR 0x1C, CHR 0x1D, CHR 0x1E, CHR 0x1F, CHR 0x20]"

definition py_strip :: "string \<Rightarrow> string" where
  "py_strip s = rev (dropWhile py_isspace (rev (dropWhile py_isspace s)))"

text \<open>
  The white space that \<^verbatim>\<open>int\<close> and \<^verbatim>\<open>float\<close> skip around an ASCII literal is that of
  the C locale, which leaves out the four separators \<open>0x1C\<close> to \<open>0x1F\<close>.
\<close>

definition c_isspace :: "char \<Rightarrow> bool" where
  "c_isspace c \<longleftrightarrow> c \<in> set [CHR 0x09, CHR 0x0A, CHR 0x0B, CHR 0x0C, CHR 0x0D, CHR 0x20]"

definition c_strip :: "string \<Rightarrow> string" where
  "c_strip s = rev (dropWhile c_isspace (rev (dropWhile c_isspace s)))"

definition lower_char :: "char \<Rightarrow> char" where
  "lower_char c =
     (case map_of (zip ''ABCDEFGHIJKLMNOPQRSTUVWXYZ'' ''abcdefghijklmnopqrstuvwxyz'') c of
        Some d \<Rightarrow> d
      | None \<Rightarrow> c)"

definition py_lower :: "string \<Rightarrow> string" where
  "py_lower s = map lower_char s"

definition endswith :: "string \<Rightarrow> string \<Rightarrow> bool" where
  "endswith s suf \<longleftrightarrow> length suf \<le> length s \<and> drop (length s - length suf) s = suf"

text \<open>\<^verbatim>\<open>s.split(c)\<close> for a one-character separator: always at least one part.\<close>

fun split_on :: "char \<Rightarrow> string \<Rightarrow> string list" where
  "split_on c [] = [[]]"
| "split_on c (x # xs) =
     (if x = c then [] # split_on c xs
      else (case split_on c xs of p # ps \<Rightarrow> (x # p) # ps | [] \<Rightarrow> [[x]]))"

definition is_digit :: "char \<Rightarrow> bool" where
  "is_digit c \<longleftrightarrow> c \<in> set ''0123456789''"

definition digit_val :: "char \<Rightarrow> nat" where
  "digit_val c = (case map_of (zip ''0123456789'' [0, 1, 2, 3, 4, 5, 6, 7, 8, 9]) c of
                    Some d \<Rightarrow> d | None \<Rightarrow> 0)"

definition digits_to_nat :: "string \<Rightarrow> nat" where
  "digits_to_nat ds = foldl (\<lambda>acc c. 10 * acc + digit_val c) 0 ds"

text \<open>
  The digit part of an integer literal accepted by \<^verbatim>\<open>int(str)\<close>: digits, with single
  underscores allowed between two digits.
\<close>

fun int_body_ok :: "string \<Rightarrow> bool" where
  "int_body_ok [] = False"
| "int_body_ok [c] = is_digit c"
| "int_body_ok (c # d # cs) =
     (is_digit c \<and> (if d = CHR ''_'' then int_body_ok cs else int_body_ok (d # cs)))"

text \<open>
  \<^verbatim>\<open>int(s)\<close> for a str: \<open>None\<close> stands for ValueError, the only exception it raises.
  A literal of more than 4300 digits is refused (the default of
  \<^verbatim>\<open>sys.int_max_str_digits\<close>).
\<close>

definition py_int_of_str :: "string \<Rightarrow> int option" where
  "py_int_of_str s =
     (let t = c_strip s;
          neg = (t \<noteq> [] \<and> hd t = CHR ''-'');
          body = (if t \<noteq> [] \<and> (hd t = CHR ''-'' \<or> hd t = CHR ''+'') then tl t else t);
          digits = filter is_digit body
      in if int_body_ok body \<and> length digits \<le> 4300
         then Some ((if neg then - 1 else 1) * int (digits_to_nat digits))
         else None)"

subsection \<open>Binary floating point\<close>

text \<open>
  A Python float is an IEEE 754 binary64 number: a finite float is the real number it
  denotes (the sign of a zero is not observable in the functions modelled here), and
  there are two infinities and NaN. A finite float is \<open>m * 2 ^ e\<close> with \<open>\<bar>m\<bar> < 2 ^ 53\<close>
  and \<open>- 1074 \<le> e\<close>. Every arithmetic operation yields the exact result rounded to the
  nearest float, ties going to the even significand, and a rounded magnitude of
  \<open>2 ^ 1024\<close> or more is an infinity.
\<close>

datatype pyfloat = Finite real | PosInf | NegInf | NaN

text \<open>The number of binary digits of a natural number.\<close>

fun bit_length :: "nat \<Rightarrow> nat" where
  "bit_length n = (if n = 0 then 0 else Suc (bit_length (n div 2)))"

declare bit_length.simps [simp del]

text \<open>The integer \<open>k\<close> with \<open>2 ^ k \<le> a < 2 ^ (k + 1)\<close>, for a positive \<open>a\<close>.\<close>

definition floor_log2 :: "real \<Rightarrow> int" where
  "floor_log2 a =
     (if 1 \<le> a then int (bit_length (nat \<lfloor>a\<rfloor>)) - 1
      else (let q = int (bit_length (nat \<lfloor>1 / a\<rfloor>)) in
            if a * 2 ^ nat (q - 1) = 1 then 1 - q else - q))"

text \<open>\<open>x * 2 ^ e\<close> for an integer \<open>e\<close> of either sign.\<close>

definition scale2 :: "real \<Rightarrow> int \<Rightarrow> real" where
  "scale2 x e = (if 0 \<le> e then x * 2 ^ nat e else x / 2 ^ nat (- e))"

definition round_half_even :: "real \<Rightarrow> int" where
  "round_half_even x =
     (let n = \<lfloor>x\<rfloor>; d = x - of_int n in
      if d < 1 / 2 then n else if 1 / 2 < d then n + 1 else if even n then n else n + 1)"

text \<open>
  Rounding of an exact result to a float. The exponent \<open>e\<close> of the last place keeps 53
  significant bits, and is not below that of the subnormal numbers.
\<close>

definition round_float :: "real \<Rightarrow> pyfloat" where
  "round_float x =
     (if x = 0 then Finite 0
      else (let e = max (floor_log2 \<bar>x\<bar> - 52) (- 1074);
                y = scale2 (real_of_int (round_half_even (scale2 \<bar>x\<bar> (- e)))) e
            in if 2 ^ 1024 \<le> y then (if 0 < x then PosInf else NegInf)
               else Finite (if 0 < x then y else - y)))"

text \<open>\<^verbatim>\<open>a + b\<close>, \<^verbatim>\<open>a * b\<close> and \<^verbatim>\<open>a / b\<close> on floats. Python raises ZeroDivisionError
  for a divisor that is zero, before dividing; \<open>float_div\<close> is the IEEE quotient for the
  other divisors.\<close>

fun float_add :: "pyfloat \<Rightarrow> pyfloat \<Rightarrow> pyfloat" where
  "float_add (Finite x) (Finite y) = round_float (x + y)"
| "float_add NaN b = NaN"
| "float_add a NaN = NaN"
| "float_add PosInf NegInf = NaN"
| "float_add NegInf PosInf = NaN"
| "float_add PosInf b = PosInf"
| "float_add NegInf b = NegInf"
| "float_add a PosInf = PosInf"
| "float_add a NegInf = NegInf"

fun float_mul :: "pyfloat \<Rightarrow> pyfloat \<Rightarrow> pyfloat" where
  "float_mul (Finite x) (Finite y) = round_float (x * y)"
| "float_mul NaN b = NaN"
| "float_mul a NaN = NaN"
| "float_mul (Finite x) b =
     (if x = 0 then NaN else if (0 < x) = (b = PosInf) then PosInf else NegInf)"
| "float_mul a (Finite y) =
     (if y = 0 then NaN else if (0 < y) = (a = PosInf) then PosInf else NegInf)"
| "float_mul a b = (if a = b then PosInf else NegInf)"

fun float_div :: "pyfloat \<Rightarrow> pyfloat \<Rightarrow> pyfloat" where
  "float_div (Finite x) (Finite y) = round_float (x / y)"
| "float_div NaN b = NaN"
| "float_div a NaN = NaN"
| "float_div (Finite x) b = Finite 0"
| "float_div a (Finite y) = (if (0 < y) = (a = PosInf) then PosInf else NegInf)"
| "float_div a b = NaN"

definition py_div :: "pyfloat \<Rightarrow> pyfloat \<Rightarrow> py_error + pyfloat" where
  "py_div a b = (if b = Finite 0 then Inl ZeroDivisionError else Inr (float_div a b))"

text \<open>\<^verbatim>\<open>a < b\<close> on floats: every comparison with NaN is false.\<close>

fun float_lt :: "pyfloat \<Rightarrow> pyfloat \<Rightarrow> bool" where
  "float_lt (Finite x) (Finite y) = (x < y)"
| "float_lt NaN b = False"
| "float_lt a NaN = False"
| "float_lt NegInf b = (b \<noteq> NegInf)"
| "float_lt a PosInf = (a \<noteq> PosInf)"
| "float_lt a b = False"

definition float_le :: "pyfloat \<Rightarrow> pyfloat \<Rightarrow> bool" where
  "float_le a b \<longleftrightarrow> float_lt a b \<or> (a = b \<and> a \<noteq> NaN)"

text \<open>
  The conversion of an \<open>int\<close> operand of a float operation, and \<^verbatim>\<open>float(n)\<close>: the
  nearest float, OverflowError when there is none.
\<close>

definition int_to_float :: "int \<Rightarrow> py_error + pyfloat" where
  "int_to_float i = (case round_float (of_int i) of
                       Finite r \<Rightarrow> Inr (Finite r)
                     | _ \<Rightarrow> Inl OverflowError)"

text \<open>\<^verbatim>\<open>int(x)\<close> for a float: truncation towards zero; an infinity raises OverflowError
  and NaN raises ValueError.\<close>

definition py_trunc :: "real \<Rightarrow> int" where
  "py_trunc r = (if 0 \<le> r then \<lfloor>r\<rfloor> else \<lceil>r\<rceil>)"

fun float_to_int :: "pyfloat \<Rightarrow> py_error + int" where
  "float_to_int (Finite r) = Inr (py_trunc r)"
| "float_to_int NaN = Inl ValueError"
| "float_to_int _ = Inl OverflowError"

text \<open>
  \<^verbatim>\<open>float(s)\<close> for a str, after the grammar of the language reference: white space
  around the literal is dropped; the literal is an optional sign followed by \<open>inf\<close>,
  \<open>infinity\<close> or \<open>nan\<close> in any case, or by a decimal number: digits, with an optional
  point, at least one digit before or after it, and an optional exponent. An underscore
  may stand between two digits. The value is the decimal number rounded to a float.
  \<open>None\<close> stands for ValueError.
\<close>

fun underscores_ok :: "char \<Rightarrow> string \<Rightarrow> bool" where
  "underscores_ok prev [] = (prev \<noteq> CHR ''_'')"
| "underscores_ok prev (c # cs) =
     ((if c = CHR ''_'' then is_digit prev else (prev = CHR ''_'' \<longrightarrow> is_digit c))
      \<and> underscores_ok c cs)"

text \<open>The exponent part of a decimal literal; an empty one is the exponent 0.\<close>

definition exponent_of :: "string \<Rightarrow> int option" where
  "exponent_of s =
     (case s of
        [] \<Rightarrow> Some 0
      | c # cs \<Rightarrow>
          (let neg = (cs \<noteq> [] \<and> hd cs = CHR ''-'');
               ds = (if cs \<noteq> [] \<and> (hd cs = CHR ''-'' \<or> hd cs = CHR ''+'') then tl cs else cs)
           in if (c = CHR ''e'' \<or> c = CHR ''E'') \<and> ds \<noteq> [] \<and> list_all is_digit ds
              then Some ((if neg then - 1 else 1) * int (digits_to_nat ds))
              else None))"

definition scale10 :: "real \<Rightarrow> int \<Rightarrow> real" where
  "scale10 x e = (if 0 \<le> e then x * 10 ^ nat e else x / 10 ^ nat (- e))"

definition decimal_value :: "string \<Rightarrow> real option" where
  "decimal_value s =
     (let ip = takeWhile is_digit s;
          r = dropWhile is_digit s;
          point = (r \<noteq> [] \<and> hd r = CHR ''.'');
          fp = (if point then takeWhile is_digit (tl r) else []);
          ex = (if point then dropWhile is_digit (tl r) else r)
      in if ip = [] \<and> fp = [] then None
         else (case exponent_of ex of
                 None \<Rightarrow> None
               | Some e \<Rightarrow> Some (scale10 (real (digits_to_nat (ip @ fp))) (e - int (length fp)))))"

definition py_float_of_str :: "string \<Rightarrow> pyfloat option" where
  "py_float_of_str s =
     (let t = c_strip s;
          u = filter (\<lambda>c. c \<noteq> CHR ''_'') t;
          neg = (u \<noteq> [] \<and> hd u = CHR ''-'');
          body = (if u \<noteq> [] \<and> (hd u = CHR ''-'' \<or> hd u = CHR ''+'') then tl u else u)
      in if \<not> underscores_ok (CHR 0x00) t then None
         else if py_lower body = ''inf'' \<or> py_lower body = ''infinity''
           then Some (if neg then NegInf else PosInf)
         else if py_lower body = ''nan'' then Some NaN
         else (case decimal_value body of
                 None \<Rightarrow> None
               | Some r \<Rightarrow> Some (round_float (if neg then - r else r))))"

subsection \<open>JSON-shaped values\<close>

datatype json =
    JNull
  | JBool bool
  | JInt int
  | JFloat real
  | JStr string
  | JList "json list"
  | JObj "(string \<times> json) list"

text \<open>
  Library functions that the repository calls and does not define are parameters of the
  model: \<^verbatim>\<open>float(s)\<close> on a str (\<open>None\<close> is ValueError), \<^verbatim>\<open>json.loads\<close> (\<open>None\<close> is any
  exception), \<^verbatim>\<open>str(x)\<close> on a value that is not a str, and \<^verbatim>\<open>sum\<close> on a list of
  floats.
\<close>

record pylib =
  float_of_str :: "string \<Rightarrow> real option"
  json_loads :: "string \<Rightarrow> json option"
  repr_of :: "json \<Rightarrow> string"
  float_sum :: "pyfloat list \<Rightarrow> pyfloat"

fun py_truthy :: "json \<Rightarrow> bool" where
  "py_truthy JNull = False"
| "py_truthy (JBool b) = b"
| "py_truthy (JInt i) = (i \<noteq> 0)"
| "py_truthy (JFloat r) = (r \<noteq> 0)"
| "py_truthy (JStr s) = (s \<noteq> [])"
| "py_truthy (JList xs) = (xs \<noteq> [])"
| "py_truthy (JObj kvs) = (kvs \<noteq> [])"

text \<open>\<^verbatim>\<open>a or b\<close>\<close>

definition py_or :: "json \<Rightarrow> json \<Rightarrow> json" where
  "py_or a b = (if py_truthy a then a else b)"

text \<open>\<^verbatim>\<open>x.get(k, d)\<close>: only a dict has the method.\<close>

fun get :: "json \<Rightarrow> string \<Rightarrow> json \<Rightarrow> py_error + json" where
  "get (JObj kvs) k d = Inr (case map_of kvs k of None \<Rightarrow> d | Some v \<Rightarrow> v)"
| "get _ k d = Inl AttributeError"

text \<open>\<^verbatim>\<open>x[k]\<close> with a str key.\<close>

fun getitem :: "json \<Rightarrow> string \<Rightarrow> py_error + json" where
  "getitem (JObj kvs) k = (case map_of kvs k of None \<Rightarrow> Inl KeyError | Some v \<Rightarrow> Inr v)"
| "getitem _ k = Inl TypeError"

fun contains_key :: "json \<Rightarrow> string \<Rightarrow> bool" where
  "contains_key (JObj kvs) k = (map_of kvs k \<noteq> None)"
| "contains_key _ k = False"

text \<open>\<^verbatim>\<open>str(x)\<close>\<close>

fun py_str :: "pylib \<Rightarrow> json \<Rightarrow> string" where
  "py_str L (JStr s) = s"
| "py_str L v = repr_of L v"

text \<open>\<^verbatim>\<open>float(x)\<close>\<close>

fun py_float :: "pylib \<Rightarrow> json \<Rightarrow> py_error + real" where
  "py_float L (JInt i) = Inr (of_int i)"
| "py_float L (JFloat r) = Inr r"
| "py_float L (JBool b) = Inr (if b then 1 else 0)"
| "py_float L (JStr s) = (case float_of_str L s of None \<Rightarrow> Inl ValueError | Some r \<Rightarrow> Inr r)"
| "py_float L _ = Inl TypeError"

text \<open>\<^verbatim>\<open>int(x)\<close>\<close>

fun py_int :: "json \<Rightarrow> py_error + int" where
  "py_int (JInt i) = Inr i"
| "py_int (JFloat r) = Inr (py_trunc r)"
| "py_int (JBool b) = Inr (if b then 1 else 0)"
| "py_int (JStr s) = (case py_int_of_str s of None \<Rightarrow> Inl ValueError | Some i \<Rightarrow> Inr i)"
| "py_int _ = Inl TypeError"

section \<open>Length and target parsing (utils/parsing.py)\<close>

text \<open>\<^verbatim>\<open>float(s)\<close> and \<^verbatim>\<open>int(s)\<close> as calls that raise.\<close>

definition float_of :: "string \<Rightarrow> py_error + pyfloat" where
  "float_of s = (case py_float_of_str s of None \<Rightarrow> Inl ValueError | Some f \<Rightarrow> Inr f)"

definition int_of :: "string \<Rightarrow> py_error + int" where
  "int_of s = (case py_int_of_str s of None \<Rightarrow> Inl ValueError | Some n \<Rightarrow> Inr n)"

definition parse_length :: "string \<Rightarrow> py_error + (int \<times> string)" where
  "parse_length value =
     (let raw = py_strip value in
      if endswith raw ''km'' then
        and_then (float_of (take (length raw - 2) raw)) (\<lambda>f.
        and_then (float_to_int (float_mul f (Finite 1000))) (\<lambda>n. Inr (n, ''meter'')))
      else if endswith raw ''m'' then
        and_then (float_of (take (length raw - 1) raw)) (\<lambda>f.
        and_then (float_to_int f) (\<lambda>n. Inr (n, ''meter'')))
      else
        (let parts = split_on CHR '':'' raw in
         if length parts = 2 then
           and_then (int_of (parts ! 0)) (\<lambda>a.
           and_then (int_of (parts ! 1)) (\<lambda>b. Inr (a * 60 + b, ''second'')))
         else if length parts = 3 then
           and_then (int_of (parts ! 0)) (\<lambda>a.
           and_then (int_of (parts ! 1)) (\<lambda>b.
           and_then (int_of (parts ! 2)) (\<lambda>c. Inr (a * 3600 + b * 60 + c, ''second''))))
         else
           and_then (int_of raw) (\<lambda>n. Inr (n, ''second''))))"

text \<open>The argument of \<open>parse_length\<close> as the callers pass it: \<^verbatim>\<open>value.strip()\<close> exists on a str only.\<close>

fun parse_length_json :: "json \<Rightarrow> py_error + (int \<times> string)" where
  "parse_length_json (JStr s) = parse_length s"
| "parse_length_json _ = Inl AttributeError"

definition parse_duration :: "json \<Rightarrow> py_error + int" where
  "parse_duration value = and_then (parse_length_json value) (\<lambda>(parsed, _). Inr parsed)"

text \<open>\<^verbatim>\<open>re.match(r"(\d+)", value)\<close>: the maximal run of digits at the start, if not empty.\<close>

definition leading_int :: "string \<Rightarrow> int option" where
  "leading_int s = (let ds = takeWhile is_digit s in
                    if ds = [] then None else Some (int (digits_to_nat ds)))"

text \<open>\<^verbatim>\<open>re.match(r"(\d+)-(\d+)", value)\<close>\<close>

definition leading_range :: "string \<Rightarrow> (int \<times> int) option" where
  "leading_range s =
     (let ds = takeWhile is_digit s; rest = dropWhile is_digit s in
      if ds = [] then None
      else (case rest of
              [] \<Rightarrow> None
            | c # r2 \<Rightarrow>
                (let es = takeWhile is_digit r2 in
                 if c = CHR ''-'' \<and> es \<noteq> []
                 then Some (int (digits_to_nat ds), int (digits_to_nat es))
                 else None)))"

fun parse_target :: "json \<Rightarrow> py_error + json" where
  "parse_target (JStr s) =
     (if s = [] then Inr JNull
      else (case leading_int s of None \<Rightarrow> Inr JNull | Some n \<Rightarrow> Inr (JInt n)))"
| "parse_target v = (if py_truthy v then Inl TypeError else Inr JNull)"

text \<open>
  The length grammar in the specification's words (section 4.2): a number followed by
  \<open>km\<close>, a number followed by \<open>m\<close>, \<open>MM:SS\<close>, \<open>HH:MM:SS\<close>, or a bare integer, where an
  integer is what \<^verbatim>\<open>int\<close> accepts and a number is a finite float that \<^verbatim>\<open>float\<close> accepts.
  A length string is malformed when it fits none of these forms.
\<close>

definition int_literal :: "string \<Rightarrow> bool" where
  "int_literal s \<longleftrightarrow> py_int_of_str s \<noteq> None"

definition number_literal :: "string \<Rightarrow> bool" where
  "number_literal s = (case py_float_of_str s of Some (Finite r) \<Rightarrow> True | _ \<Rightarrow> False)"

definition well_formed_length :: "string \<Rightarrow> bool" where
  "well_formed_length s =
     (let raw = py_strip s; parts = split_on CHR '':'' raw in
      (endswith raw ''km'' \<and> number_literal (take (length raw - 2) raw))
      \<or> (endswith raw ''m'' \<and> number_literal (take (length raw - 1) raw))
      \<or> (length parts = 2 \<and> list_all int_literal parts)
      \<or> (length parts = 3 \<and> list_all int_literal parts)
      \<or> int_literal raw)"

text \<open>The text before a trailing \<open>km\<close> or \<open>m\<close>, read as a float.\<close>

definition distance_number :: "string \<Rightarrow> pyfloat option" where
  "distance_number s =
     (let raw = py_strip s in
      if endswith raw ''km'' then py_float_of_str (take (length raw - 2) raw)
      else if endswith raw ''m'' then py_float_of_str (take (length raw - 1) raw)
      else None)"

section \<open>DSL compiler (utils/parsing.py)\<close>

text \<open>\<^verbatim>\<open>[{"minValue": parse_target(step.get(key))}] if step.get(key) else []\<close>\<close>

definition min_targets :: "json \<Rightarrow> string \<Rightarrow> py_error + json" where
  "min_targets step key =
     and_then (get step key JNull) (\<lambda>t.
       if py_truthy t
       then and_then (parse_target t) (\<lambda>p. Inr (JList [JObj [(''minValue'', p)]]))
       else Inr (JList []))"

definition rampUp_block :: "json list \<Rightarrow> json" where
  "rampUp_block warmup_steps =
     JObj [(''type'', JStr ''rampUp''),
           (''length'', JObj [(''value'', JInt 1), (''unit'', JStr ''repetition'')]),
           (''steps'', JList warmup_steps)]"

text \<open>\<^verbatim>\<open>if warmup_steps: blocks.append(rampUp block); warmup_steps = []\<close>\<close>

definition flush_warmup :: "json list \<times> json list \<Rightarrow> json list \<times> json list" where
  "flush_warmup st =
     (case st of (blocks, warmup_steps) \<Rightarrow>
        if warmup_steps \<noteq> [] then (blocks @ [rampUp_block warmup_steps], []) else st)"

definition single_step_block :: "json \<Rightarrow> json" where
  "single_step_block child =
     JObj [(''type'', JStr ''step''),
           (''length'', JObj [(''value'', JInt 1), (''unit'', JStr ''repetition'')]),
           (''steps'', JList [child])]"

definition dsl_step :: "json \<Rightarrow> json \<Rightarrow> json \<Rightarrow> json \<Rightarrow> string \<Rightarrow> json" where
  "dsl_step name len_value len_unit targets intensity_class =
     JObj [(''name'', name),
           (''length'', JObj [(''value'', len_value), (''unit'', len_unit)]),
           (''targets'', targets),
           (''intensityClass'', JStr intensity_class),
           (''openDuration'', JBool False)]"

text \<open>The targets of the "on" leg of an interval entry.\<close>

definition on_targets_of :: "json \<Rightarrow> py_error + json" where
  "on_targets_of on_target =
     (if py_truthy on_target then
        (case on_target of
           JStr s \<Rightarrow>
             (case leading_range s of
                Some (lo, hi) \<Rightarrow> Inr (JList [JObj [(''minValue'', JInt lo), (''maxValue'', JInt hi)]])
              | None \<Rightarrow>
                  and_then (parse_target on_target) (\<lambda>parsed.
                    if parsed \<noteq> JNull then Inr (JList [JObj [(''minValue'', parsed)]])
                    else Inr (JList [])))
         | _ \<Rightarrow> Inl TypeError)
      else Inr (JList []))"

definition interval_block :: "json \<Rightarrow> int \<Rightarrow> string \<Rightarrow> int \<Rightarrow> string \<Rightarrow> json \<Rightarrow> py_error + json" where
  "interval_block step on_value on_unit off_value off_unit on_targets =
     and_then (get step ''reps'' (JInt 1)) (\<lambda>reps.
     and_then (get step ''name'' (JStr [])) (\<lambda>name.
     and_then (get step ''on_name'' name) (\<lambda>on_name.
     and_then (get step ''off_name'' (JStr ''Easy'')) (\<lambda>off_name.
     and_then (min_targets step ''off_target'') (\<lambda>off_targets.
       Inr (JObj [(''type'', JStr ''repetition''),
                  (''length'', JObj [(''value'', reps), (''unit'', JStr ''repetition'')]),
                  (''steps'', JList
                     [dsl_step on_name (JInt on_value) (JStr on_unit) on_targets ''active'',
                      dsl_step off_name (JInt off_value) (JStr off_unit) off_targets ''rest''])]))))))"

text \<open>One iteration of the loop over the DSL steps; the state is \<open>(blocks, warmup_steps)\<close>.\<close>

definition compile_step :: "json list \<times> json list \<Rightarrow> json \<Rightarrow> py_error + (json list \<times> json list)" where
  "compile_step st step =
     (case st of (blocks, warmup_steps) \<Rightarrow>
      and_then (getitem step ''type'') (\<lambda>step_type.
        if step_type = JStr ''warmup'' then
          and_then (getitem step ''duration'') (\<lambda>d.
          and_then (parse_length_json d) (\<lambda>(dur_value, dur_unit).
          and_then (get step ''name'' (JStr [])) (\<lambda>name.
          and_then (min_targets step ''target'') (\<lambda>targets.
            Inr (blocks,
                 warmup_steps @
                   [dsl_step name (JInt dur_value) (JStr dur_unit) targets
                      (if warmup_steps = [] then ''warmUp'' else ''active'')])))))
        else if step_type = JStr ''interval'' then
          and_then (getitem step ''on'') (\<lambda>on.
          and_then (parse_length_json on) (\<lambda>(on_value, on_unit).
          and_then (getitem step ''off'') (\<lambda>off.
          and_then (parse_length_json off) (\<lambda>(off_value, off_unit).
          and_then (get step ''on_target'' JNull) (\<lambda>on_target.
          and_then (on_targets_of on_target) (\<lambda>on_targets.
          (case flush_warmup st of (blocks', warmup_steps') \<Rightarrow>
            and_then (interval_block step on_value on_unit off_value off_unit on_targets)
              (\<lambda>block. Inr (blocks' @ [block], warmup_steps')))))))))
        else
          (case flush_warmup st of (blocks', warmup_steps') \<Rightarrow>
            if step_type = JStr ''cooldown'' then
              and_then (get step ''name'' (JStr ''Cool Down'')) (\<lambda>name.
              and_then (getitem step ''duration'') (\<lambda>d.
              and_then (parse_duration d) (\<lambda>dur.
              and_then (min_targets step ''target'') (\<lambda>targets.
                Inr (blocks' @ [single_step_block
                                  (dsl_step name (JInt dur) (JStr ''second'') targets ''coolDown'')],
                     warmup_steps')))))
            else if step_type = JStr ''steady'' then
              and_then (get step ''name'' (JStr [])) (\<lambda>name.
              and_then (getitem step ''duration'') (\<lambda>d.
              and_then (parse_duration d) (\<lambda>dur.
              and_then (min_targets step ''target'') (\<lambda>targets.
                Inr (blocks' @ [single_step_block
                                  (dsl_step name (JInt dur) (JStr ''second'') targets ''active'')],
                     warmup_steps')))))
            else Inr (blocks', warmup_steps'))))"

fun compile_steps :: "json list \<times> json list \<Rightarrow> json list \<Rightarrow> py_error + (json list \<times> json list)" where
  "compile_steps st [] = Inr st"
| "compile_steps st (step # steps) =
     and_then (compile_step st step) (\<lambda>st'. compile_steps st' steps)"

definition simple_to_tp_structure :: "json list \<Rightarrow> string \<Rightarrow> py_error + json" where
  "simple_to_tp_structure steps intensity_metric =
     and_then (compile_steps ([], []) steps) (\<lambda>st.
       (case flush_warmup st of (blocks, _) \<Rightarrow>
          Inr (JObj [(''primaryIntensityMetric'', JStr intensity_metric),
                     (''structure'', JList blocks)])))"

text \<open>
  A library instance on which the model can be run: \<open>float\<close> restricted to plain decimal
  literals (optional sign, digits, optional fraction), no JSON text accepted, an
  empty \<open>repr\<close>, and a sum that adds from left to right. Theorems below hold for every
  library; this one only feeds examples.
\<close>

definition decimal_float :: "string \<Rightarrow> real option" where
  "decimal_float s =
     (let t = py_strip s;
          neg = (t \<noteq> [] \<and> hd t = CHR ''-'');
          u = (if t \<noteq> [] \<and> (hd t = CHR ''-'' \<or> hd t = CHR ''+'') then tl t else t);
          ip = takeWhile is_digit u;
          r = dropWhile is_digit u;
          sg = (if neg then - 1 else 1)
      in case r of
           [] \<Rightarrow> if ip = [] then None else Some (sg * real (digits_to_nat ip))
         | c # fp \<Rightarrow>
             if c = CHR ''.'' \<and> list_all is_digit fp \<and> (ip \<noteq> [] \<or> fp \<noteq> [])
             then Some (sg * (real (digits_to_nat ip) + real (digits_to_nat fp) / 10 ^ length fp))
             else None)"

definition no_json :: "string \<Rightarrow> json option" where
  "no_json s = None"

definition no_repr :: "json \<Rightarrow> string" where
  "no_repr v = []"

definition sample_lib :: pylib where
  "sample_lib = \<lparr> float_of_str = decimal_float, json_loads = no_json, repr_of = no_repr,
                   float_sum = foldl float_add (Finite 0) \<rparr>"


definition is_repetition_block :: "json \<Rightarrow> bool" where
  "is_repetition_block b \<longleftrightarrow> get b ''type'' JNull = Inr (JStr ''repetition'')"





section \<open>Duration and distance estimator (core/upload.py)\<close>

text \<open>
  The threshold speed and the two totals are floats. An \<open>int\<close> that meets a float in an
  operation is converted first, which raises OverflowError when it is too large. The
  literals \<^verbatim>\<open>0.72\<close>, \<^verbatim>\<open>2.0\<close>, \<^verbatim>\<open>100.0\<close> and \<^verbatim>\<open>0.5\<close> are the floats nearest to them.
\<close>

definition pct_to_speed :: "json \<Rightarrow> pyfloat \<Rightarrow> py_error + pyfloat" where
  "pct_to_speed target_str threshold_speed =
     (if \<not> py_truthy target_str then Inr (float_mul threshold_speed (round_float (72 / 100)))
      else (case target_str of
              JStr s \<Rightarrow>
                (case leading_range s of
                   Some (lo, hi) \<Rightarrow>
                     and_then (int_to_float (lo + hi)) (\<lambda>total.
                       (let mid = float_div total (Finite 2)
                        in Inr (float_mul threshold_speed (float_div mid (Finite 100)))))
                 | None \<Rightarrow>
                     (case leading_int s of
                        Some n \<Rightarrow>
                          and_then (int_to_float n) (\<lambda>pct.
                            Inr (float_mul threshold_speed (float_div pct (Finite 100))))
                      | None \<Rightarrow> Inr (float_mul threshold_speed (round_float (72 / 100)))))
            | _ \<Rightarrow> Inl TypeError))"

text \<open>
  The four-line accumulation that the source repeats for every leg; the state is
  \<open>(total_seconds, total_meters)\<close>.
\<close>

definition add_leg ::
  "pyfloat \<times> pyfloat \<Rightarrow> int \<Rightarrow> string \<Rightarrow> pyfloat \<Rightarrow> py_error + (pyfloat \<times> pyfloat)" where
  "add_leg acc value unit speed =
     (case acc of (total_seconds, total_meters) \<Rightarrow>
        and_then (int_to_float value) (\<lambda>v.
          if unit = ''second''
          then Inr (float_add total_seconds v, float_add total_meters (float_mul v speed))
          else
            and_then (if float_lt (Finite 0) speed then py_div v speed else Inr (Finite 0))
              (\<lambda>seconds. Inr (float_add total_seconds seconds, float_add total_meters v))))"

text \<open>\<^verbatim>\<open>for _ in range(reps)\<close> around a body that can raise.\<close>

fun for_range :: "nat \<Rightarrow> ('a \<Rightarrow> py_error + 'a) \<Rightarrow> 'a \<Rightarrow> py_error + 'a" where
  "for_range 0 body acc = Inr acc"
| "for_range (Suc n) body acc = and_then (body acc) (for_range n body)"

definition calc_step ::
  "pylib \<Rightarrow> pyfloat \<Rightarrow> pyfloat \<times> pyfloat \<Rightarrow> json \<Rightarrow> py_error + (pyfloat \<times> pyfloat)" where
  "calc_step L threshold_speed acc step =
     and_then (get step ''type'' JNull) (\<lambda>step_type.
       if step_type \<in> set [JStr ''warmup'', JStr ''steady'', JStr ''cooldown''] then
         and_then (getitem step ''duration'') (\<lambda>d.
         and_then (parse_length (py_str L d)) (\<lambda>(dur_value, dur_unit).
         and_then (get step ''target'' JNull) (\<lambda>target.
         and_then (pct_to_speed target threshold_speed) (\<lambda>speed.
           add_leg acc dur_value dur_unit speed))))
       else if step_type = JStr ''interval'' then
         and_then (get step ''reps'' (JInt 1)) (\<lambda>r.
         and_then (py_int r) (\<lambda>reps.
         and_then (getitem step ''on'') (\<lambda>on.
         and_then (parse_length (py_str L on)) (\<lambda>(on_value, on_unit).
         and_then (getitem step ''off'') (\<lambda>off.
         and_then (parse_length (py_str L off)) (\<lambda>(off_value, off_unit).
         and_then (get step ''on_target'' JNull) (\<lambda>on_target.
         and_then (pct_to_speed on_target threshold_speed) (\<lambda>on_speed.
         and_then (get step ''off_target'' JNull) (\<lambda>off_target.
         and_then (pct_to_speed off_target threshold_speed) (\<lambda>off_speed.
           for_range (nat reps)
             (\<lambda>a. and_then (add_leg a on_value on_unit on_speed)
                    (\<lambda>a'. add_leg a' off_value off_unit off_speed))
             acc))))))))))
       else Inr acc)"

fun calc_totals ::
  "pylib \<Rightarrow> pyfloat \<Rightarrow> pyfloat \<times> pyfloat \<Rightarrow> json list \<Rightarrow> py_error + (pyfloat \<times> pyfloat)" where
  "calc_totals L threshold_speed acc [] = Inr acc"
| "calc_totals L threshold_speed acc (step # steps) =
     and_then (calc_step L threshold_speed acc step)
       (\<lambda>acc'. calc_totals L threshold_speed acc' steps)"

text \<open>\<^verbatim>\<open>return int(total_seconds + 0.5), int(total_meters + 0.5)\<close>\<close>

definition calc_time_and_distance :: "pylib \<Rightarrow> json list \<Rightarrow> pyfloat \<Rightarrow> py_error + (int \<times> int)" where
  "calc_time_and_distance L steps threshold_speed =
     and_then (calc_totals L threshold_speed (Finite 0, Finite 0) steps)
       (\<lambda>(total_seconds, total_meters).
          and_then (float_to_int (float_add total_seconds (Finite (1 / 2)))) (\<lambda>seconds.
          and_then (float_to_int (float_add total_meters (Finite (1 / 2)))) (\<lambda>meters.
            Inr (seconds, meters))))"

text \<open>Rounding half-up to the nearest integer, in the words of the specification and of
  the comment above the \<^verbatim>\<open>return\<close>.\<close>

definition round_half_up :: "real \<Rightarrow> int" where
  "round_half_up x = \<lfloor>x + 1 / 2\<rfloor>"

text \<open>
  The sample of the specification, a steady step with a negative duration, and a steady
  step of 150 metres, and a steady step of three metres.
\<close>

definition estimator_sample :: "json list" where
  "estimator_sample =
     [JObj [(''type'', JStr ''warmup''), (''duration'', JStr ''10:00''), (''target'', JStr ''70% TP'')],
      JObj [(''type'', JStr ''steady''), (''duration'', JStr ''5km''), (''target'', JStr ''80% TP'')],
      JObj [(''type'', JStr ''interval''), (''reps'', JInt 2),
            (''on'', JStr ''1:00''), (''off'', JStr ''0:30''),
            (''on_target'', JStr ''100% TP''), (''off_target'', JStr ''70% TP'')]]"

definition negative_steady :: "json list" where
  "negative_steady =
     [JObj [(''type'', JStr ''steady''), (''duration'', JStr ''-1:00''), (''target'', JStr ''100'')]]"

definition short_steady :: "json list" where
  "short_steady =
     [JObj [(''type'', JStr ''steady''), (''duration'', JStr ''150m''), (''target'', JStr ''80% TP'')]]"

text \<open>A threshold speed one unit in the last place above 6.\<close>

definition near_six :: real where
  "near_six = 6 + 1 / 2 ^ 50"

text \<open>The float next below one half.\<close>

definition below_half :: real where
  "below_half = 1 / 2 - 1 / 2 ^ 54"

definition three_metres :: "json list" where
  "three_metres =
     [JObj [(''type'', JStr ''steady''), (''duration'', JStr ''3m''), (''target'', JStr ''100'')]]"

section \<open>Zone classifier (core/classify.py)\<close>

datatype zone = Easy | Lt1 | Lt2 | Vo2

fun zone_name :: "zone \<Rightarrow> string" where
  "zone_name Easy = ''easy''"
| "zone_name Lt1 = ''lt1''"
| "zone_name Lt2 = ''lt2''"
| "zone_name Vo2 = ''vo2''"

fun zone_rank :: "zone \<Rightarrow> nat" where
  "zone_rank Easy = 0"
| "zone_rank Lt1 = 1"
| "zone_rank Lt2 = 2"
| "zone_rank Vo2 = 3"

definition EASY_CLASSES :: "string list" where
  "EASY_CLASSES = [''warmup'', ''cooldown'', ''rest'', ''recovery'']"

definition DEFAULT_ZONE_THRESHOLDS :: "string \<rightharpoonup> real" where
  "DEFAULT_ZONE_THRESHOLDS = map_of [(''easy_max'', 75), (''lt1_max'', 93), (''lt2_max'', 100)]"

text \<open>\<^verbatim>\<open>thresholds[key]\<close>: a missing key raises KeyError.\<close>

definition subscript :: "(string \<rightharpoonup> 'a) \<Rightarrow> string \<Rightarrow> py_error + 'a" where
  "subscript d k = (case d k of None \<Rightarrow> Inl KeyError | Some v \<Rightarrow> Inr v)"

definition classify_zone :: "real \<Rightarrow> string \<Rightarrow> string \<Rightarrow> (string \<rightharpoonup> real) \<Rightarrow> py_error + zone" where
  "classify_zone pct block_type intensity_class thresholds =
     (let block_type_norm = py_lower (py_strip block_type) in
      if block_type_norm = ''rampup'' then Inr Easy
      else if py_lower (py_strip intensity_class) \<in> set EASY_CLASSES then Inr Easy
      else case subscript thresholds ''easy_max'' of Inl e \<Rightarrow> Inl e | Inr easy_max \<Rightarrow>
        if pct \<le> easy_max then Inr Easy
        else case subscript thresholds ''lt1_max'' of Inl e \<Rightarrow> Inl e | Inr lt1_max \<Rightarrow>
          if pct \<le> lt1_max then Inr Lt1
          else case subscript thresholds ''lt2_max'' of Inl e \<Rightarrow> Inl e | Inr lt2_max \<Rightarrow>
            if pct \<le> lt2_max then Inr Lt2 else Inr Vo2)"

section \<open>Workout-type classifier (core/classify.py, core/constants.py)\<close>

definition TYPE_RULES :: "(string \<times> string list) list" where
  "TYPE_RULES =
     [(''race'', [''race'', ''competition'', ''event'', ''marathon'', ''triathlon'', ''70.3'']),
      (''test'', [''test'', ''ftp test'', ''time trial'', ''benchmark'', ''ramp test'']),
      (''vo2'', [''vo2'', ''vo2max'', ''zone 5'', ''z5'']),
      (''sprint'', [''sprint'', ''anaerobic'', ''zone 6'', ''z6'', ''neuromuscular'', ''20/40'']),
      (''lt2'', [''lt2'', ''lactate threshold'', ''threshold'', ''zone 4'', ''z4'', ''ftp'',
                 ''over under'', ''sweetspot'', ''sst'']),
      (''lt1'', [''lt1'', ''aerobic threshold'', ''tempo'', ''zone 3'', ''z3'', ''sweet spot'']),
      (''long'', [''long run'', ''long ride'', ''long swim'', ''endurance long'', ''weekend long'']),
      (''strength'', [''strength'', ''gym'', ''weights'', ''dryland'', ''core'']),
      (''easy'', [''easy'', ''recovery'', ''endurance'', ''zone 1'', ''zone 2'', ''z1'', ''z2'',
                  ''base z2'', ''warm down'', ''spin'', ''technique''])]"

definition PRIORITY_KEYWORD_TYPES :: "string list" where
  "PRIORITY_KEYWORD_TYPES = [''race'', ''test'', ''strength'', ''long'', ''sprint'']"

fun is_dict :: "json \<Rightarrow> bool" where
  "is_dict (JObj _) = True"
| "is_dict _ = False"

fun starts_with :: "string \<Rightarrow> string \<Rightarrow> bool" where
  "starts_with [] ys = True"
| "starts_with (x # xs) [] = False"
| "starts_with (x # xs) (y # ys) = (x = y \<and> starts_with xs ys)"

text \<open>\<^verbatim>\<open>keyword in text\<close> on two strings: \<open>keyword\<close> occurs in \<open>text\<close> as a contiguous run.\<close>

fun py_in_str :: "string \<Rightarrow> string \<Rightarrow> bool" where
  "py_in_str keyword [] = (keyword = [])"
| "py_in_str keyword (c # cs) = (starts_with keyword (c # cs) \<or> py_in_str keyword cs)"

text \<open>\<^verbatim>\<open>" ".join(parts)\<close>\<close>

fun join_space :: "string list \<Rightarrow> string" where
  "join_space [] = []"
| "join_space [p] = p"
| "join_space (p # q # ps) = p @ '' '' @ join_space (q # ps)"

definition normalized_text :: "pylib \<Rightarrow> json \<Rightarrow> py_error + string" where
  "normalized_text L workout =
     and_then (get workout ''title'' JNull) (\<lambda>title.
     and_then (get workout ''description'' JNull) (\<lambda>description.
     and_then (get workout ''coachComments'' JNull) (\<lambda>coach.
     and_then (get workout ''userTags'' JNull) (\<lambda>tags.
       Inr (py_lower (join_space
              [py_str L (py_or title (JStr [])),
               py_str L (py_or description (JStr [])),
               py_str L (py_or coach (JStr [])),
               py_str L (py_or tags (JStr []))]))))))"

definition rule_matches :: "string \<Rightarrow> string \<times> string list \<Rightarrow> bool" where
  "rule_matches text rule = list_ex (\<lambda>keyword. py_in_str keyword text) (snd rule)"

definition classify_by_keywords :: "pylib \<Rightarrow> json \<Rightarrow> (string \<times> string list) list \<Rightarrow> py_error + string" where
  "classify_by_keywords L workout rules =
     and_then (normalized_text L workout) (\<lambda>text.
       Inr (case find (rule_matches text) rules of
              Some (workout_type, keywords) \<Rightarrow> workout_type
            | None \<Rightarrow> ''other''))"

text \<open>\<open>JNull\<close> is Python's \<open>None\<close>.\<close>

definition parse_structure_value :: "pylib \<Rightarrow> json \<Rightarrow> json" where
  "parse_structure_value L raw =
     (case raw of
        JNull \<Rightarrow> JNull
      | JStr s \<Rightarrow> (case json_loads L s of None \<Rightarrow> JNull | Some v \<Rightarrow> v)
      | _ \<Rightarrow> raw)"

definition normalize_blocks :: "json \<Rightarrow> json list" where
  "normalize_blocks raw_blocks =
     (case raw_blocks of
        JList xs \<Rightarrow>
          (let dict_blocks = filter is_dict xs in
           if dict_blocks = [] then []
           else if list_all (\<lambda>block. \<not> contains_key block ''steps'') dict_blocks then
             [JObj [(''type'', JStr ''step''),
                    (''length'', JObj [(''value'', JInt 1), (''unit'', JStr ''repetition'')]),
                    (''steps'', JList dict_blocks)]]
           else dict_blocks)
      | _ \<Rightarrow> [])"

text \<open>The loop of \<open>_extract_structure\<close> over the three keys; \<open>metric\<close> is carried along.\<close>

fun extract_loop :: "pylib \<Rightarrow> json \<Rightarrow> string \<Rightarrow> string list \<Rightarrow> py_error + (json list \<times> string)" where
  "extract_loop L workout metric [] = Inr ([], metric)"
| "extract_loop L workout metric (key # keys) =
     and_then (get workout key JNull) (\<lambda>raw.
       (let parsed = parse_structure_value L raw in
        if parsed = JNull then extract_loop L workout metric keys
        else if is_dict parsed then
          and_then (get parsed ''primaryIntensityMetric'' JNull) (\<lambda>pim.
          and_then (get parsed ''structure'' JNull) (\<lambda>s1.
          and_then (get parsed ''steps'' JNull) (\<lambda>s2.
            (let metric' = py_str L (py_or pim (JStr metric));
                 normalized = normalize_blocks (py_or s1 s2)
             in if normalized \<noteq> [] then Inr (normalized, metric')
                else extract_loop L workout metric' keys))))
        else
          (let normalized = normalize_blocks parsed
           in if normalized \<noteq> [] then Inr (normalized, metric)
              else extract_loop L workout metric keys)))"

definition extract_structure :: "pylib \<Rightarrow> json \<Rightarrow> py_error + (json list \<times> string)" where
  "extract_structure L workout =
     and_then (get workout ''primaryIntensityMetric'' JNull) (\<lambda>m.
       extract_loop L workout (py_str L (py_or m (JStr [])))
         [''structuredSteps'', ''structuredWorkout'', ''structure''])"

definition as_percent :: "pylib \<Rightarrow> json \<Rightarrow> real" where
  "as_percent L v =
     (case py_float L v of
        Inl _ \<Rightarrow> 0
      | Inr pct \<Rightarrow> if pct \<le> 0 then 0 else if pct \<le> 2 then pct * 100 else pct)"

definition step_intensity_pct :: "pylib \<Rightarrow> json \<Rightarrow> py_error + real" where
  "step_intensity_pct L step =
     and_then (get step ''targets'' JNull) (\<lambda>targets.
       (case targets of
          JList (target # _) \<Rightarrow>
            (case target of
               JObj kvs \<Rightarrow>
                 and_then (get target ''minValue'' JNull) (\<lambda>mn.
                 and_then (get target ''maxValue'' JNull) (\<lambda>mx.
                 and_then (get target ''value'' JNull) (\<lambda>v.
                   (let min_pct = as_percent L mn; max_pct = as_percent L mx in
                    if min_pct > 0 \<and> max_pct > 0 then Inr ((min_pct + max_pct) / 2)
                    else if min_pct > 0 then Inr min_pct
                    else if max_pct > 0 then Inr max_pct
                    else Inr (as_percent L v)))))
             | _ \<Rightarrow> Inr 0)
        | _ \<Rightarrow> Inr 0))"

definition length_to_seconds :: "pylib \<Rightarrow> json \<Rightarrow> py_error + real" where
  "length_to_seconds L len =
     and_then (get len ''unit'' JNull) (\<lambda>u.
     (let unit = py_lower (py_str L (py_or u (JStr []))) in
      and_then (get len ''value'' JNull) (\<lambda>v.
        (case py_float L (py_or v (JInt 0)) of
           Inl _ \<Rightarrow> Inr 0
         | Inr value \<Rightarrow>
             if value \<le> 0 then Inr 0
             else if unit = ''second'' then Inr value
             else if unit = ''minute'' then Inr (value * 60)
             else if unit = ''hour'' then Inr (value * 3600)
             else if unit = ''meter'' then Inr (value / 4)
             else if unit = ''kilometer'' then Inr (value * 250)
             else Inr 0))))"

record tally =
  zone_loads :: "zone \<Rightarrow> real"
  zone_counts :: "zone \<Rightarrow> nat"
  has_intensity_targets :: bool
  max_pct :: real

definition empty_tally :: tally where
  "empty_tally = \<lparr> zone_loads = (\<lambda>_. 0), zone_counts = (\<lambda>_. 0),
                    has_intensity_targets = False, max_pct = 0 \<rparr>"

text \<open>
  The load credited to one step: \<^verbatim>\<open>_length_to_seconds(step.get("length", {})) * max(rep_count, 1)\<close>,
  replaced by 30 when it is not positive and the step has an intensity.
\<close>

definition step_load :: "pylib \<Rightarrow> int \<Rightarrow> json \<Rightarrow> real \<Rightarrow> py_error + real" where
  "step_load L rep_count step pct =
     and_then (get step ''length'' (JObj [])) (\<lambda>len.
     and_then (length_to_seconds L len) (\<lambda>secs.
       (let load = secs * real_of_int (max rep_count 1)
        in Inr (if load \<le> 0 \<and> pct > 0 then 30 else load))))"

definition tally_step :: "pylib \<Rightarrow> string \<Rightarrow> int \<Rightarrow> tally \<Rightarrow> json \<Rightarrow> py_error + tally" where
  "tally_step L block_type rep_count t step =
     and_then (step_intensity_pct L step) (\<lambda>pct.
     (let t1 = (if pct > 0
                then t\<lparr>has_intensity_targets := True, max_pct := max (max_pct t) pct\<rparr>
                else t) in
      and_then (get step ''intensityClass'' JNull) (\<lambda>ic.
      and_then (classify_zone pct block_type (py_str L (py_or ic (JStr ''active'')))
                  DEFAULT_ZONE_THRESHOLDS) (\<lambda>zone.
      and_then (step_load L rep_count step pct) (\<lambda>load.
        Inr (t1\<lparr>zone_loads := (zone_loads t1)(zone := zone_loads t1 zone + load),
                  zone_counts := (if pct > 0
                                  then (zone_counts t1)(zone := zone_counts t1 zone + 1)
                                  else zone_counts t1)\<rparr>))))))"

fun tally_steps :: "pylib \<Rightarrow> string \<Rightarrow> int \<Rightarrow> tally \<Rightarrow> json list \<Rightarrow> py_error + tally" where
  "tally_steps L block_type rep_count t [] = Inr t"
| "tally_steps L block_type rep_count t (step # steps) =
     and_then (tally_step L block_type rep_count t step)
       (\<lambda>t'. tally_steps L block_type rep_count t' steps)"

definition block_rep_count :: "pylib \<Rightarrow> string \<Rightarrow> json \<Rightarrow> py_error + int" where
  "block_rep_count L block_type block =
     (if py_lower (py_strip block_type) = ''repetition'' then
        and_then (get block ''length'' (JObj [])) (\<lambda>len.
        and_then (get len ''value'' JNull) (\<lambda>v.
          (case py_float L (py_or v (JInt 1)) of
             Inl _ \<Rightarrow> Inr 1
           | Inr f \<Rightarrow> Inr (py_trunc f))))
      else Inr 1)"

definition tally_block :: "pylib \<Rightarrow> tally \<Rightarrow> json \<Rightarrow> py_error + tally" where
  "tally_block L t block =
     and_then (get block ''type'' JNull) (\<lambda>ty.
     (let block_type = py_str L (py_or ty (JStr ''step'')) in
      and_then (block_rep_count L block_type block) (\<lambda>rep_count.
      and_then (get block ''steps'' JNull) (\<lambda>steps_raw.
        (let steps = (case steps_raw of JList xs \<Rightarrow> filter is_dict xs | _ \<Rightarrow> [])
         in tally_steps L block_type rep_count t steps)))))"

fun tally_blocks :: "pylib \<Rightarrow> tally \<Rightarrow> json list \<Rightarrow> py_error + tally" where
  "tally_blocks L t [] = Inr t"
| "tally_blocks L t (block # blocks) =
     and_then (tally_block L t block) (\<lambda>t'. tally_blocks L t' blocks)"

text \<open>The decision at the end of \<open>_classify_from_structure\<close>.\<close>

definition structure_label :: "tally \<Rightarrow> string option" where
  "structure_label t =
     (if \<not> has_intensity_targets t then None
      else
        (let vo2_load = zone_loads t Vo2;
             hard_load = zone_loads t Lt2 + vo2_load;
             lt1_load = zone_loads t Lt1
         in if vo2_load \<ge> 180 \<or> (zone_counts t Vo2 \<ge> 2 \<and> max_pct t > 105) then Some ''vo2''
            else if hard_load \<ge> 180 \<or> zone_counts t Lt2 + zone_counts t Vo2 \<ge> 2 then Some ''lt2''
            else if lt1_load \<ge> 300 \<or> zone_counts t Lt1 \<ge> 2 then Some ''lt1''
            else Some ''easy''))"

definition structure_tally :: "pylib \<Rightarrow> json \<Rightarrow> py_error + tally option" where
  "structure_tally L workout =
     and_then (extract_structure L workout) (\<lambda>(blocks, _).
       if blocks = [] then Inr None
       else and_then (tally_blocks L empty_tally blocks) (\<lambda>t. Inr (Some t)))"

definition classify_from_structure :: "pylib \<Rightarrow> json \<Rightarrow> py_error + string option" where
  "classify_from_structure L workout =
     and_then (structure_tally L workout) (\<lambda>r.
       (case r of None \<Rightarrow> Inr None | Some t \<Rightarrow> Inr (structure_label t)))"

definition classify_with_source :: "pylib \<Rightarrow> json \<Rightarrow> (string \<times> string list) list \<Rightarrow> py_error + (string \<times> string)" where
  "classify_with_source L workout rules =
     and_then (classify_by_keywords L workout rules) (\<lambda>keyword_label.
       if keyword_label \<in> set PRIORITY_KEYWORD_TYPES then Inr (keyword_label, ''keyword'')
       else
         and_then (classify_from_structure L workout) (\<lambda>label.
           (case label of
              Some l \<Rightarrow> if l \<noteq> [] then Inr (l, ''structure'') else Inr (keyword_label, ''keyword'')
            | None \<Rightarrow> Inr (keyword_label, ''keyword''))))"

definition classify_workout :: "pylib \<Rightarrow> json \<Rightarrow> (string \<times> string list) list \<Rightarrow> py_error + string" where
  "classify_workout L workout rules =
     and_then (classify_with_source L workout rules) (\<lambda>(label, _). Inr label)"

text \<open>A text field of the workout as \<open>_normalized_text\<close> reads it: \<^verbatim>\<open>str(workout.get(k) or "")\<close>.\<close>

definition text_field :: "pylib \<Rightarrow> (string \<times> json) list \<Rightarrow> string \<Rightarrow> string" where
  "text_field L kvs k =
     py_str L (py_or (case map_of kvs k of None \<Rightarrow> JNull | Some v \<Rightarrow> v) (JStr []))"

text \<open>A workout whose text mentions both race and threshold and whose structure alone is lt2.\<close>

definition race_prep_workout :: json where
  "race_prep_workout =
     JObj [(''title'', JStr ''Race day prep''),
           (''description'', JStr ''Local race threshold effort''),
           (''structure'', JObj
              [(''primaryIntensityMetric'', JStr ''percentOfThresholdPace''),
               (''structure'', JList
                  [JObj [(''type'', JStr ''step''),
                         (''steps'', JList
                            [JObj [(''length'', JObj [(''value'', JInt 900), (''unit'', JStr ''second'')]),
                                   (''targets'', JList [JObj [(''minValue'', JInt 96), (''maxValue'', JInt 100)]]),
                                   (''intensityClass'', JStr ''active'')]])]])])]"





section \<open>Zone-distance decomposer (core/analysis.py)\<close>




text \<open>\<open>classify_zone\<close> at a percentage that is the result of float arithmetic.\<close>

definition classify_zone_float ::
  "pyfloat \<Rightarrow> string \<Rightarrow> string \<Rightarrow> (string \<rightharpoonup> real) \<Rightarrow> py_error + zone" where
  "classify_zone_float pct block_type intensity_class thresholds =
     (let block_type_norm = py_lower (py_strip block_type) in
      if block_type_norm = ''rampup'' then Inr Easy
      else if py_lower (py_strip intensity_class) \<in> set EASY_CLASSES then Inr Easy
      else case subscript thresholds ''easy_max'' of Inl e \<Rightarrow> Inl e | Inr easy_max \<Rightarrow>
        if float_le pct (Finite easy_max) then Inr Easy
        else case subscript thresholds ''lt1_max'' of Inl e \<Rightarrow> Inl e | Inr lt1_max \<Rightarrow>
          if float_le pct (Finite lt1_max) then Inr Lt1
          else case subscript thresholds ''lt2_max'' of Inl e \<Rightarrow> Inl e | Inr lt2_max \<Rightarrow>
            if float_le pct (Finite lt2_max) then Inr Lt2 else Inr Vo2)"


















text \<open>\<^verbatim>\<open>d.get(k, default)\<close> on a value known to be a dict.\<close>

definition getd :: "json \<Rightarrow> string \<Rightarrow> json \<Rightarrow> json" where
  "getd d k dflt = (case d of JObj kvs \<Rightarrow> (case map_of kvs k of None \<Rightarrow> dflt | Some v \<Rightarrow> v)
                    | _ \<Rightarrow> dflt)"










section \<open>Week pattern classifier (core/analysis.py)\<close>

definition classify_week :: "real \<Rightarrow> int \<Rightarrow> bool \<Rightarrow> real option \<Rightarrow> string" where
  "classify_week total_distance total_sessions has_race delta_pct =
     (if has_race then ''race''
      else if total_sessions \<le> 2 \<and> total_distance < 20000 then ''off''
      else case delta_pct of
        None \<Rightarrow> ''start''
      | Some d \<Rightarrow>
          if d < - 25 then ''recovery''
          else if d > 15 then ''build''
          else ''maintenance'')"

section \<open>Pattern and injury-risk analyzer (core/analysis.py)\<close>

text \<open>
  The date library and \<^verbatim>\<open>round\<close> are parameters as well: \<open>iso_calendar day\<close> is the ISO
  year and week of \<^verbatim>\<open>datetime.strptime(day, "%Y-%m-%d").isocalendar()\<close>, \<open>None\<close> when
  \<open>strptime\<close> raises ValueError, and \<open>round1 x\<close> is \<^verbatim>\<open>round(x, 1)\<close>.
\<close>

record datelib =
  iso_calendar :: "string \<Rightarrow> (nat \<times> nat) option"
  round1 :: "real \<Rightarrow> real"

text \<open>Decimal digits of a number, as an f-string prints them.\<close>

fun show_nat :: "nat \<Rightarrow> string" where
  "show_nat n =
     (if n < 10 then [''0123456789'' ! n]
      else show_nat (n div 10) @ [''0123456789'' ! (n mod 10)])"

declare show_nat.simps [simp del]

text \<open>\<^verbatim>\<open>f"{iso[0]}-W{iso[1]:02d}"\<close>\<close>

definition week_key_of :: "nat \<times> nat \<Rightarrow> string" where
  "week_key_of cal =
     show_nat (fst cal) @ ''-W'' @ (if snd cal < 10 then ''0'' else []) @ show_nat (snd cal)"

definition week_key :: "datelib \<Rightarrow> string \<Rightarrow> py_error + string" where
  "week_key D day = (case iso_calendar D day of
                       None \<Rightarrow> Inl ValueError
                     | Some cal \<Rightarrow> Inr (week_key_of cal))"

text \<open>
  \<^verbatim>\<open>SPORT_MAP.get(key)\<close> for \<open>SPORT_MAP = {1: "swim", 2: "bike", 3: "run"}\<close>: numbers and
  booleans that equal 1, 2 or 3 find the entry, a list or a dict is unhashable.
\<close>

definition sport_of_number :: "real \<Rightarrow> string option" where
  "sport_of_number r = (if r = 1 then Some ''swim'' else if r = 2 then Some ''bike''
                        else if r = 3 then Some ''run'' else None)"

fun sport_of :: "json \<Rightarrow> py_error + string option" where
  "sport_of (JInt i) = Inr (sport_of_number (real_of_int i))"
| "sport_of (JFloat r) = Inr (sport_of_number r)"
| "sport_of (JBool b) = Inr (sport_of_number (if b then 1 else 0))"
| "sport_of (JList _) = Inl TypeError"
| "sport_of (JObj _) = Inl TypeError"
| "sport_of _ = Inr None"

definition workout_sport :: "json \<Rightarrow> py_error + string option" where
  "workout_sport w = and_then (get w ''workoutTypeValueId'' JNull) sport_of"

definition classification_type :: "pylib \<Rightarrow> json \<Rightarrow> py_error + string" where
  "classification_type L workout =
     and_then (get workout ''classification'' (JObj [])) (\<lambda>c.
     and_then (get c ''type'' JNull) (\<lambda>t.
       Inr (py_str L (py_or t (JStr ''other'')))))"

text \<open>\<^verbatim>\<open>[w for w in workouts if SPORT_MAP.get(w.get("workoutTypeValueId")) in {"run", "bike"}]\<close>\<close>

fun run_bike_rows :: "json list \<Rightarrow> py_error + json list" where
  "run_bike_rows [] = Inr []"
| "run_bike_rows (w # ws) =
     and_then (workout_sport w) (\<lambda>sport.
     and_then (run_bike_rows ws) (\<lambda>rest.
       Inr (if sport = Some ''run'' \<or> sport = Some ''bike'' then w # rest else rest)))"

text \<open>\<^verbatim>\<open>str(item.get("workoutDay", ""))\<close> on a row, which is a dict.\<close>

definition day_text :: "pylib \<Rightarrow> json \<Rightarrow> string" where
  "day_text L item = py_str L (getd item ''workoutDay'' (JStr []))"

text \<open>The state of the first loop: \<open>run_by_date\<close>, \<open>bike_by_date\<close> and the dates seen.\<close>

record by_date =
  run_by_date :: "string \<Rightarrow> string list"
  bike_by_date :: "string \<Rightarrow> string list"
  all_dates :: "string list"

definition collect_row :: "pylib \<Rightarrow> by_date \<Rightarrow> json \<Rightarrow> py_error + by_date" where
  "collect_row L st workout =
     (let day = take 10 (day_text L workout) in
      if day = [] then Inr st
      else
        and_then (classification_type L workout) (\<lambda>workout_type.
        and_then (workout_sport workout) (\<lambda>sport.
          (let st1 = st\<lparr>all_dates := day # all_dates st\<rparr> in
           if sport = Some ''run'' then
             Inr (st1\<lparr>run_by_date := (run_by_date st1)(day := run_by_date st1 day @ [workout_type])\<rparr>)
           else if sport = Some ''bike'' then
             Inr (st1\<lparr>bike_by_date := (bike_by_date st1)(day := bike_by_date st1 day @ [workout_type])\<rparr>)
           else Inr st1))))"

fun collect_rows :: "pylib \<Rightarrow> by_date \<Rightarrow> json list \<Rightarrow> py_error + by_date" where
  "collect_rows L st [] = Inr st"
| "collect_rows L st (w # ws) = and_then (collect_row L st w) (\<lambda>st'. collect_rows L st' ws)"

definition intensity_order :: "string \<Rightarrow> nat" where
  "intensity_order t = (case map_of [(''vo2'', 4), (''lt2'', 3), (''lt1'', 2), (''easy'', 1),
                                     (''other'', 0)] t of Some n \<Rightarrow> n | None \<Rightarrow> 0)"

text \<open>\<^verbatim>\<open>max(values, key=...)\<close>: the first of the maximal items.\<close>

fun first_max :: "('a \<Rightarrow> nat) \<Rightarrow> 'a \<Rightarrow> 'a list \<Rightarrow> 'a" where
  "first_max f best [] = best"
| "first_max f best (x # xs) = first_max f (if f x > f best then x else best) xs"

definition day_intensity :: "string list \<Rightarrow> string" where
  "day_intensity types = (case types of [] \<Rightarrow> ''rest'' | t # ts \<Rightarrow> first_max intensity_order t ts)"

record week_row =
  run_lt2 :: int
  bike_lt2 :: int
  run_vo2 :: int
  total_hard :: int

definition empty_week :: week_row where
  "empty_week = \<lparr> run_lt2 = 0, bike_lt2 = 0, run_vo2 = 0, total_hard = 0 \<rparr>"

text \<open>
  \<^verbatim>\<open>weekly[key][field] += 1\<close> on the \<open>defaultdict\<close>: the row is created on first access.
  The table is an association list with one entry for each key.
\<close>

fun bump :: "string \<Rightarrow> (week_row \<Rightarrow> week_row) \<Rightarrow> (string \<times> week_row) list \<Rightarrow> (string \<times> week_row) list" where
  "bump key f [] = [(key, f empty_week)]"
| "bump key f ((k, row) # rest) =
     (if k = key then (k, f row) # rest else (k, row) # bump key f rest)"

definition weekly_day :: "datelib \<Rightarrow> by_date \<Rightarrow> (string \<times> week_row) list \<Rightarrow> string
                            \<Rightarrow> py_error + (string \<times> week_row) list" where
  "weekly_day D st weekly day =
     and_then (week_key D day) (\<lambda>key.
       (let run_intensity = day_intensity (run_by_date st day);
            bike_intensity = day_intensity (bike_by_date st day);
            w1 = (if run_intensity = ''lt2''
                  then bump key (\<lambda>r. r\<lparr>run_lt2 := run_lt2 r + 1\<rparr>) weekly else weekly);
            w2 = (if run_intensity = ''vo2''
                  then bump key (\<lambda>r. r\<lparr>run_vo2 := run_vo2 r + 1\<rparr>) w1 else w1);
            w3 = (if bike_intensity = ''lt2''
                  then bump key (\<lambda>r. r\<lparr>bike_lt2 := bike_lt2 r + 1\<rparr>) w2 else w2);
            w4 = (if run_intensity \<in> {''lt2'', ''vo2''}
                  then bump key (\<lambda>r. r\<lparr>total_hard := total_hard r + 1\<rparr>) w3 else w3);
            w5 = (if bike_intensity \<in> {''lt2'', ''vo2''}
                  then bump key (\<lambda>r. r\<lparr>total_hard := total_hard r + 1\<rparr>) w4 else w4)
        in Inr w5))"

fun weekly_days :: "datelib \<Rightarrow> by_date \<Rightarrow> (string \<times> week_row) list \<Rightarrow> string list
                      \<Rightarrow> py_error + (string \<times> week_row) list" where
  "weekly_days D st weekly [] = Inr weekly"
| "weekly_days D st weekly (day # days) =
     and_then (weekly_day D st weekly day) (\<lambda>weekly'. weekly_days D st weekly' days)"

record risk_factor =
  factor_type :: string
  week :: string
  increase_pct :: real
  severity :: string
  recommendation :: string

text \<open>\<^verbatim>\<open>(curr_val - prev_val) / prev_val * 100\<close>\<close>

definition increase_of :: "int \<Rightarrow> int \<Rightarrow> real" where
  "increase_of prev_val curr_val = real_of_int (curr_val - prev_val) / real_of_int prev_val * 100"

definition spike :: "datelib \<Rightarrow> string \<Rightarrow> real \<Rightarrow> risk_factor" where
  "spike D curr_key increase =
     \<lparr> factor_type = ''hard_session_spike'',
       week = curr_key,
       increase_pct = round1 D increase,
       severity = (if increase \<ge> 60 then ''high'' else ''medium''),
       recommendation = ''Consider a recovery week or reducing intensity density'' \<rparr>"

text \<open>
  The loop \<^verbatim>\<open>for idx in range(1, len(week_keys))\<close> over the sorted week keys, each paired
  with its \<open>total_hard\<close>.
\<close>

fun risk_scan :: "datelib \<Rightarrow> (string \<times> int) list \<Rightarrow> risk_factor list" where
  "risk_scan D ((prev_key, prev_val) # (curr_key, curr_val) # rest) =
     (if prev_val > 0 \<and> increase_of prev_val curr_val \<ge> 40
      then [spike D curr_key (increase_of prev_val curr_val)]
      else [])
     @ risk_scan D ((curr_key, curr_val) # rest)"
| "risk_scan D _ = []"

text \<open>\<^verbatim>\<open>sorted(weekly.keys())\<close> with each key's \<open>total_hard\<close>.\<close>

definition hard_table :: "(string \<times> week_row) list \<Rightarrow> (string \<times> int) list" where
  "hard_table weekly = map (\<lambda>(k, row). (k, total_hard row)) (sort_key fst weekly)"

text \<open>
  The payload of \<open>analyze_patterns\<close>, reduced to the entries that the weekly table feeds:
  \<open>weekly_load\<close> and \<open>risk_factors\<close> (\<open>None\<close> when the key is not in the payload). The
  same-day and day-after tallies, the multi-sport counts and the coach note do not
  enter these two entries and are left out; dates are those that have a next calendar day.
\<close>

record pattern_payload =
  weekly_load :: "(string \<times> week_row) list"
  risk_factors :: "risk_factor list option"

definition analyze_patterns ::
  "pylib \<Rightarrow> datelib \<Rightarrow> json list \<Rightarrow> bool \<Rightarrow> bool \<Rightarrow> bool \<Rightarrow> py_error + pattern_payload" where
  "analyze_patterns L D workouts multi_sport injury_risk coach_analysis =
     and_then (run_bike_rows workouts) (\<lambda>rows0.
     (let rows = sort_key (day_text L) rows0 in
      and_then (collect_rows L \<lparr> run_by_date = (\<lambda>_. []), bike_by_date = (\<lambda>_. []),
                                 all_dates = [] \<rparr> rows) (\<lambda>st.
      (let ordered_dates = sort (remdups (all_dates st)) in
       and_then (weekly_days D st [] ordered_dates) (\<lambda>weekly.
         (let found = (if injury_risk then risk_scan D (hard_table weekly) else [])
          in Inr \<lparr> weekly_load = sort_key fst weekly,
                   risk_factors = (if injury_risk then Some found else None) \<rparr>))))))"

text \<open>A date library that knows some days of February 2026, rounding half-up to one decimal.\<close>

definition february_2026 :: "string \<Rightarrow> (nat \<times> nat) option" where
  "february_2026 = map_of
     [(''2026-02-03'', (2026, 6)), (''2026-02-05'', (2026, 6)),
      (''2026-02-10'', (2026, 7)), (''2026-02-11'', (2026, 7)), (''2026-02-12'', (2026, 7)),
      (''2026-02-14'', (2026, 7)), (''2026-02-17'', (2026, 8))]"

definition tenths :: "real \<Rightarrow> real" where
  "tenths x = real_of_int \<lfloor>x * 10 + 1 / 2\<rfloor> / 10"

definition sample_dates :: datelib where
  "sample_dates = \<lparr> iso_calendar = february_2026, round1 = tenths \<rparr>"

text \<open>Run workouts of a given day and classification type.\<close>

definition run_workout :: "string \<Rightarrow> string \<Rightarrow> json" where
  "run_workout day t =
     JObj [(''workoutDay'', JStr (day @ ''T00:00:00'')), (''workoutTypeValueId'', JInt 3),
           (''classification'', JObj [(''type'', JStr t)])]"

definition spike_workouts :: "json list" where
  "spike_workouts =
     [run_workout ''2026-02-10'' ''lt2'', run_workout ''2026-02-03'' ''vo2'',
      run_workout ''2026-02-12'' ''vo2'', run_workout ''2026-02-17'' ''lt2'',
      run_workout ''2026-02-05'' ''lt2'', run_workout ''2026-02-14'' ''lt2'']"

text \<open>The condition under which the pair of rows \<open>i\<close>, \<open>i + 1\<close> of the table yields the factor \<open>f\<close>.\<close>

definition spike_at :: "datelib \<Rightarrow> (string \<times> int) list \<Rightarrow> nat \<Rightarrow> risk_factor \<Rightarrow> bool" where
  "spike_at D table i f \<longleftrightarrow>
     Suc i < length table \<and> 0 < snd (table ! i)
     \<and> 40 \<le> increase_of (snd (table ! i)) (snd (table ! Suc i))
     \<and> f = spike D (fst (table ! Suc i)) (increase_of (snd (table ! i)) (snd (table ! Suc i)))"

text \<open>The weekly hard-session counts of \<open>spike_workouts\<close>.\<close>

definition spike_table :: "(string \<times> int) list" where
  "spike_table = [(''2026-W06'', 2), (''2026-W07'', 3), (''2026-W08'', 1)]"

section \<open>Zone distribution reporter (core/analysis.py)\<close>













section \<open>Weekly aggregator (core/analysis.py)\<close>



















section \<open>Classification metadata and its attachment (core/classify.py, commands/common.py)\<close>





section \<open>Input collections as objects\<close>
















section \<open>Properties\<close>

lemma py_norm_examples:
  "py_lower (py_strip ''rampUp'') = ''rampup''"
  "py_lower (py_strip ''step'') = ''step''"
  "py_lower (py_strip ''active'') = ''active''"
  "py_lower (py_strip ''rest'') = ''rest''"
  by (simp_all add: py_lower_def py_strip_def py_isspace_def lower_char_def)

text \<open>
  Claim C1. With thresholds \<open>easy_max < lt1_max < lt2_max\<close>, a block type that does not
  normalise (strip, lower-case) to \<open>rampup\<close> and an intensity class that does not normalise
  into warmup, cooldown, rest, recovery: \<open>classify_zone\<close> returns easy up to and including
  \<open>easy_max\<close>, lt1 up to and including \<open>lt1_max\<close>, lt2 up to and including \<open>lt2_max\<close> and
  vo2 above; it is monotonic non-decreasing in \<open>pct\<close>; a \<open>pct\<close> equal to a threshold falls
  in the lower zone. For every \<open>pct\<close> and every thresholds map, a \<open>rampup\<close> block is easy,
  and otherwise an intensity class among the four easy classes is easy.
\<close>

theorem classify_zone_monotone_boundaries:
  assumes th: "thresholds ''easy_max'' = Some e" "thresholds ''lt1_max'' = Some l1"
              "thresholds ''lt2_max'' = Some l2"
      and ord: "e < l1" "l1 < l2"
  shows "(py_lower (py_strip bt) \<noteq> ''rampup'' \<and> py_lower (py_strip ic) \<notin> set EASY_CLASSES \<longrightarrow>
           classify_zone pct bt ic thresholds =
             Inr (if pct \<le> e then Easy else if pct \<le> l1 then Lt1
                  else if pct \<le> l2 then Lt2 else Vo2)
         \<and> (\<forall>p q. p \<le> q \<longrightarrow>
               (\<exists>zp zq. classify_zone p bt ic thresholds = Inr zp
                      \<and> classify_zone q bt ic thresholds = Inr zq
                      \<and> zone_rank zp \<le> zone_rank zq))
         \<and> classify_zone e bt ic thresholds = Inr Easy
         \<and> classify_zone l1 bt ic thresholds = Inr Lt1
         \<and> classify_zone l2 bt ic thresholds = Inr Lt2)
    \<and> (py_lower (py_strip bt) = ''rampup'' \<longrightarrow>
           classify_zone pct bt ic any_thresholds = Inr Easy)
    \<and> (py_lower (py_strip bt) \<noteq> ''rampup'' \<and> py_lower (py_strip ic) \<in> set EASY_CLASSES \<longrightarrow>
           classify_zone pct bt ic any_thresholds = Inr Easy)"
  using assms by (auto simp: classify_zone_def subscript_def Let_def)

theorem classify_zone_monotone_boundaries_witness:
  "classify_zone 75 ''step'' ''active'' DEFAULT_ZONE_THRESHOLDS = Inr Easy
   \<and> classify_zone 93 ''step'' ''active'' DEFAULT_ZONE_THRESHOLDS = Inr Lt1
   \<and> classify_zone 100 ''step'' ''active'' DEFAULT_ZONE_THRESHOLDS = Inr Lt2
   \<and> classify_zone 101 ''step'' ''active'' DEFAULT_ZONE_THRESHOLDS = Inr Vo2
   \<and> classify_zone 110 ''rampUp'' ''active'' DEFAULT_ZONE_THRESHOLDS = Inr Easy
   \<and> classify_zone 110 ''step'' ''rest'' DEFAULT_ZONE_THRESHOLDS = Inr Easy"
proof -
  have th: "DEFAULT_ZONE_THRESHOLDS ''easy_max'' = Some 75"
           "DEFAULT_ZONE_THRESHOLDS ''lt1_max'' = Some 93"
           "DEFAULT_ZONE_THRESHOLDS ''lt2_max'' = Some 100"
    by (simp_all add: DEFAULT_ZONE_THRESHOLDS_def)
  have ord: "(75::real) < 93" "(93::real) < 100" by simp_all
  have active: "py_lower (py_strip ''step'') \<noteq> ''rampup''
                \<and> py_lower (py_strip ''active'') \<notin> set EASY_CLASSES"
    by (simp add: py_norm_examples EASY_CLASSES_def)
  have ramp: "py_lower (py_strip ''rampUp'') = ''rampup''"
    by (simp add: py_norm_examples)
  have rest: "py_lower (py_strip ''step'') \<noteq> ''rampup''
                \<and> py_lower (py_strip ''rest'') \<in> set EASY_CLASSES"
    by (simp add: py_norm_examples EASY_CLASSES_def)
  note main = classify_zone_monotone_boundaries [OF th ord]
  from main [of "''step''" "''active''" 101 DEFAULT_ZONE_THRESHOLDS] active
       main [of "''rampUp''" "''active''" 110 DEFAULT_ZONE_THRESHOLDS] ramp
       main [of "''step''" "''rest''" 110 DEFAULT_ZONE_THRESHOLDS] rest
  show ?thesis by simp
qed

text \<open>
  Claim C4. \<open>classify_week\<close> is total and evaluates, in this order: a race week is
  \<open>race\<close>; else at most two sessions and under 20000 m is \<open>off\<close>; else no delta is
  \<open>start\<close>; else a delta below -25 is \<open>recovery\<close>; else a delta above 15 is \<open>build\<close>;
  else \<open>maintenance\<close>. The six sample rows of the specification evaluate as listed.
\<close>

theorem classify_week_priority:
  "(r \<longrightarrow> classify_week d s r dl = ''race'')
   \<and> (\<not> r \<and> s \<le> 2 \<and> d < 20000 \<longrightarrow> classify_week d s r dl = ''off'')
   \<and> (\<not> r \<and> \<not> (s \<le> 2 \<and> d < 20000) \<and> dl = None \<longrightarrow> classify_week d s r dl = ''start'')
   \<and> (\<not> r \<and> \<not> (s \<le> 2 \<and> d < 20000) \<and> dl = Some p \<and> p < - 25 \<longrightarrow>
        classify_week d s r dl = ''recovery'')
   \<and> (\<not> r \<and> \<not> (s \<le> 2 \<and> d < 20000) \<and> dl = Some p \<and> \<not> p < - 25 \<and> p > 15 \<longrightarrow>
        classify_week d s r dl = ''build'')
   \<and> (\<not> r \<and> \<not> (s \<le> 2 \<and> d < 20000) \<and> dl = Some p \<and> \<not> p < - 25 \<and> \<not> p > 15 \<longrightarrow>
        classify_week d s r dl = ''maintenance'')
   \<and> classify_week d s r dl \<in>
        {''race'', ''off'', ''start'', ''recovery'', ''build'', ''maintenance''}
   \<and> classify_week 10000 3 True (Some 10) = ''race''
   \<and> classify_week 10000 2 False (Some 0) = ''off''
   \<and> classify_week 30000 5 False None = ''start''
   \<and> classify_week 30000 5 False (Some (- 30)) = ''recovery''
   \<and> classify_week 30000 5 False (Some 20) = ''build''
   \<and> classify_week 30000 5 False (Some 3) = ''maintenance''"
  by (auto simp: classify_week_def split: option.splits)

theorem classify_week_priority_witness:
  "classify_week 25000 2 False (Some (- 26)) = ''recovery''
   \<and> classify_week 19999 2 False (Some (- 26)) = ''off''
   \<and> classify_week 19999 2 True None = ''race''"
  using classify_week_priority [where r = False and s = 2 and d = 25000 and dl = "Some (- 26)" and p = "- 26"]
        classify_week_priority [where r = False and s = 2 and d = 19999 and dl = "Some (- 26)" and p = "- 26"]
        classify_week_priority [where r = True and s = 2 and d = 19999 and dl = None and p = 0]
  by simp

lemmas str_eval = py_strip_def py_isspace_def c_strip_def c_isspace_def endswith_def
  py_int_of_str_def int_of_def float_of_def is_digit_def
  digits_to_nat_def digit_val_def py_lower_def lower_char_def

lemmas float_eval = round_float_def floor_log2_def scale2_def round_half_even_def
  bit_length.simps int_to_float_def py_div_def Let_def

lemmas float_literal_eval = py_float_of_str_def decimal_value_def exponent_of_def scale10_def

lemma length_2_cases: "length xs = 2 \<Longrightarrow> \<exists>a b. xs = [a, b]"
  by (cases xs; cases "tl xs") auto

lemma length_3_cases: "length xs = 3 \<Longrightarrow> \<exists>a b c. xs = [a, b, c]"
  by (cases xs; cases "tl xs"; cases "tl (tl xs)") auto

text \<open>Lengths that parse: the distance forms go through \<^verbatim>\<open>float\<close> and its rounding.\<close>

lemma parse_length_examples:
  "parse_length ''5km'' = Inr (5000, ''meter'')"
  "parse_length ''400m'' = Inr (400, ''meter'')"
  "parse_length ''1.005km'' = Inr (1004, ''meter'')"
  "parse_length ''1e3m'' = Inr (1000, ''meter'')"
  "parse_length ''1:30'' = Inr (90, ''second'')"
  "parse_length ''1:02:03'' = Inr (3723, ''second'')"
  "parse_length '' 90 '' = Inr (90, ''second'')"
  by (simp_all add: parse_length_def str_eval float_literal_eval float_eval py_trunc_def)

text \<open>
  Lengths that do not parse. The separator \<open>0x1C\<close> is white space for \<^verbatim>\<open>str.strip\<close> and
  not for \<^verbatim>\<open>int\<close>.
\<close>

lemma parse_length_failures:
  "parse_length ''abcm'' = Inl ValueError"
  "parse_length ''km'' = Inl ValueError"
  "parse_length ''4x400m'' = Inl ValueError"
  "parse_length ''1:30m'' = Inl ValueError"
  "parse_length ''nanm'' = Inl ValueError"
  "parse_length ''infm'' = Inl OverflowError"
  "parse_length ''-Infinitykm'' = Inl OverflowError"
  "parse_length [CHR ''1'', CHR '':'', CHR 0x1C, CHR ''5''] = Inl ValueError"
  "parse_length [CHR 0x1C, CHR ''5''] = Inr (5, ''second'')"
  by (simp_all add: parse_length_def str_eval float_literal_eval)

text \<open>
  Claim C5, as stated: every malformed length string (fitting none of the forms trailing
  \<open>km\<close>, trailing \<open>m\<close>, \<open>MM:SS\<close>, \<open>HH:MM:SS\<close>, bare integer) makes \<open>parse_length\<close> raise
  ParseError. The string \<open>abc\<close> is malformed and \<open>parse_length\<close> raises ValueError on it.
\<close>

theorem parse_length_ParseError_counterexample:
  "\<not> (\<not> well_formed_length ''abc'' \<longrightarrow> parse_length ''abc'' = Inl ParseError)"
  by (simp add: well_formed_length_def int_literal_def parse_length_def str_eval)

text \<open>
  Claim C5, amended: every malformed length string makes \<open>parse_length\<close> raise: OverflowError
  when the text before a trailing \<open>km\<close> or \<open>m\<close> is read by \<^verbatim>\<open>float\<close> as an infinity, and
  ValueError in every other case. ValueError is not the only other failure kind of the
  compiler: a DSL step without a \<open>type\<close> key raises KeyError.
\<close>

theorem parse_length_malformed_raises:
  "(\<not> well_formed_length s \<longrightarrow>
      parse_length s =
        Inl (if distance_number s = Some PosInf \<or> distance_number s = Some NegInf
             then OverflowError else ValueError))
   \<and> simple_to_tp_structure [JObj []] metric = Inl KeyError"
proof -
  have A: "\<not> well_formed_length s \<longrightarrow>
      parse_length s =
        Inl (if distance_number s = Some PosInf \<or> distance_number s = Some NegInf
             then OverflowError else ValueError)"
    unfolding well_formed_length_def parse_length_def distance_number_def Let_def
      int_literal_def number_literal_def float_of_def int_of_def
    by (auto dest!: length_2_cases length_3_cases split: option.splits pyfloat.splits)
  have B: "simple_to_tp_structure [JObj []] metric = Inl KeyError"
    by (simp add: simple_to_tp_structure_def compile_step_def)
  from A B show ?thesis by (rule conjI)
qed

theorem parse_length_malformed_raises_witness:
  "\<not> well_formed_length ''1:2:3:4'' \<and> parse_length ''1:2:3:4'' = Inl ValueError
   \<and> \<not> well_formed_length ''4x400m'' \<and> parse_length ''4x400m'' = Inl ValueError
   \<and> \<not> well_formed_length ''infm'' \<and> parse_length ''infm'' = Inl OverflowError"
proof -
  have a: "\<not> well_formed_length ''1:2:3:4''" "distance_number ''1:2:3:4'' = None"
    by (simp_all add: well_formed_length_def distance_number_def int_literal_def str_eval)
  have b: "\<not> well_formed_length ''4x400m''" "distance_number ''4x400m'' = None"
    by (simp_all add: well_formed_length_def distance_number_def int_literal_def
          number_literal_def str_eval float_literal_eval)
  have c: "\<not> well_formed_length ''infm''" "distance_number ''infm'' = Some PosInf"
    by (simp_all add: well_formed_length_def distance_number_def int_literal_def
          number_literal_def str_eval float_literal_eval)
  note main = parse_length_malformed_raises [THEN conjunct1, THEN mp]
  from main [OF a(1)] main [OF b(1)] main [OF c(1)] a b c
  show ?thesis by simp
qed





lemma rep_simps [simp]:
  "\<not> is_repetition_block (rampUp_block ws)"
  "\<not> is_repetition_block (single_step_block c)"
  by (simp_all add: is_repetition_block_def rampUp_block_def single_step_block_def)


lemma and_then_Inr: "and_then m f = Inr y \<Longrightarrow> \<exists>x. m = Inr x \<and> f x = Inr y"
  by (cases m) auto





lemma get_dsl_step [simp]:
  "get (dsl_step n v u t c) ''intensityClass'' d = Inr (JStr c)"
  "get (dsl_step n v u t c) ''length'' d = Inr (JObj [(''value'', v), (''unit'', u)])"
  "get (dsl_step n v u t c) ''name'' d = Inr n"
  by (simp_all add: dsl_step_def)



lemmas calc_eval = calc_step_def pct_to_speed_def add_leg_def parse_length_def leading_range_def
  leading_int_def sample_lib_def py_trunc_def str_eval

lemma parse_length_unit:
  "parse_length s = Inr (v, u) \<Longrightarrow> u = ''second'' \<or> u = ''meter''"
  unfolding parse_length_def Let_def
  by (auto split: if_splits dest!: and_then_Inr)

text \<open>Floats that the examples meet.\<close>

lemma round_float_int: "round_float 0 = Finite 0" "round_float 3 = Finite 3"
  "round_float 4 = Finite 4" "round_float 100 = Finite 100" "round_float 1 = Finite 1"
  "round_float (- 60) = Finite (- 60)" "round_float (- 240) = Finite (- 240)"
  "round_float (- (119 / 2)) = Finite (- (119 / 2))"
  "round_float (- (479 / 2)) = Finite (- (479 / 2))"
  "round_float (7 / 2) = Finite (7 / 2)"
  by (simp_all add: float_eval)

lemma near_six_positive: "0 < near_six" "near_six \<noteq> 0"
  by (simp_all add: near_six_def)

lemma round_float_half:
  "round_float (3 / near_six) = Finite below_half"
  "round_float near_six = Finite near_six"
  "round_float below_half = Finite below_half"
  "round_float (below_half + 1 / 2) = Finite 1"
  by (simp_all add: float_eval near_six_def below_half_def)

text \<open>
  Each operation rounds: 150 metres at 80 percent of the threshold speed 3 take 62 seconds,
  the speed being the float \<open>2.4000000000000004\<close> and the time \<open>62.49999999999999\<close>.
\<close>

lemma round_float_speed:
  "round_float 80 = Finite 80" "round_float 150 = Finite 150"
  "round_float (4 / 5) = Finite (3602879701896397 / 4503599627370496)"
  "round_float (10808639105689191 / 4503599627370496) = Finite (1351079888211149 / 562949953421312)"
  "round_float (84442493013196800 / 1351079888211149)
     = Finite (8796093022207999 / 140737488355328)"
  "round_float (8796093022207999 / 140737488355328) = Finite (8796093022207999 / 140737488355328)"
  "round_float (8866461766385663 / 140737488355328) = Finite (8866461766385663 / 140737488355328)"
  "round_float (301 / 2) = Finite (301 / 2)"
  by (simp_all add: float_eval)

lemma short_steady_length: "parse_length ''150m'' = Inr (150, ''meter'')"
  by (simp add: parse_length_def str_eval float_literal_eval float_eval py_trunc_def)

lemma short_steady_speed:
  "pct_to_speed (JStr ''80% TP'') (Finite 3) = Inr (Finite (1351079888211149 / 562949953421312))"
  by (simp add: pct_to_speed_def leading_range_def leading_int_def str_eval int_to_float_def
        round_float_speed)

lemma estimator_rounding:
  "calc_time_and_distance sample_lib short_steady (Finite 3) = Inr (62, 150)"
  by (simp add: short_steady_def calc_time_and_distance_def calc_step_def sample_lib_def
        short_steady_length short_steady_speed add_leg_def int_to_float_def py_div_def
        round_float_speed py_trunc_def)

text \<open>
  Claim C6: the totals are rounded half-up, as the comment above the \<^verbatim>\<open>return\<close> says as
  well. The code computes \<^verbatim>\<open>int(x + 0.5)\<close>, which is something else on two kinds of
  totals. A negative total is truncated towards zero: the steady step of \<open>-1:00\<close> at
  100 percent of the threshold speed 4 has the totals \<open>- 60\<close> and \<open>- 240\<close>, and the code
  returns \<open>(- 59, - 239)\<close>. A total just below one half is rounded up by the addition
  itself: three metres at the threshold speed \<open>near_six\<close>, the float \<open>6 + 2 ^ - 50\<close>, take
  \<open>below_half\<close> seconds, that is \<open>1 / 2 - 2 ^ - 54\<close>, the sum with \<open>0.5\<close> is the float \<open>1\<close>, and the code
  returns one second where rounding half-up gives none.
\<close>

theorem calc_time_and_distance_half_up_counterexample:
  "calc_totals sample_lib (Finite 4) (Finite 0, Finite 0) negative_steady
     = Inr (Finite (- 60), Finite (- 240))
   \<and> calc_time_and_distance sample_lib negative_steady (Finite 4) = Inr (- 59, - 239)
   \<and> (round_half_up (- 60), round_half_up (- 240)) = (- 60, - 240)
   \<and> calc_totals sample_lib (Finite near_six) (Finite 0, Finite 0) three_metres
     = Inr (Finite below_half, Finite 3)
   \<and> calc_time_and_distance sample_lib three_metres (Finite near_six) = Inr (1, 3)
   \<and> (round_half_up below_half, round_half_up 3) = (0, 3)"
proof -
  have n: "calc_totals sample_lib (Finite 4) (Finite 0, Finite 0) negative_steady
     = Inr (Finite (- 60), Finite (- 240))"
    by (simp add: negative_steady_def calc_eval int_to_float_def py_div_def round_float_int)
  have t: "calc_totals sample_lib (Finite near_six) (Finite 0, Finite 0) three_metres
     = Inr (Finite below_half, Finite 3)"
    by (simp add: three_metres_def calc_eval float_literal_eval int_to_float_def py_div_def
          round_float_int round_float_half near_six_positive)
  have r: "(round_half_up (- 60), round_half_up (- 240)) = (- 60, - 240)"
    "(round_half_up below_half, round_half_up 3) = (0, 3)"
    by (simp_all add: round_half_up_def below_half_def)
  have c1: "calc_time_and_distance sample_lib negative_steady (Finite 4) = Inr (- 59, - 239)"
    by (simp add: calc_time_and_distance_def n round_float_int py_trunc_def)
  have c2: "calc_time_and_distance sample_lib three_metres (Finite near_six) = Inr (1, 3)"
    by (simp add: calc_time_and_distance_def t round_float_int round_float_half py_trunc_def)
  from n t r c1 c2 show ?thesis by simp
qed

lemma starts_with_iff: "starts_with k t \<longleftrightarrow> (\<exists>b. t = k @ b)"
  by (induction k t rule: starts_with.induct) auto

lemma py_in_str_iff: "py_in_str k t \<longleftrightarrow> (\<exists>a b. t = a @ k @ b)"
proof (induction t)
  case Nil
  then show ?case by auto
next
  case (Cons c cs)
  show ?case
  proof
    assume "py_in_str k (c # cs)"
    then consider "starts_with k (c # cs)" | "py_in_str k cs" by auto
    then show "\<exists>a b. c # cs = a @ k @ b"
    proof cases
      case 1
      then obtain b where "c # cs = k @ b" by (auto simp: starts_with_iff)
      then have "c # cs = [] @ k @ b" by simp
      then show ?thesis by blast
    next
      case 2
      with Cons obtain a b where "cs = a @ k @ b" by blast
      then have "c # cs = (c # a) @ k @ b" by simp
      then show ?thesis by blast
    qed
  next
    assume "\<exists>a b. c # cs = a @ k @ b"
    then obtain a b where ab: "c # cs = a @ k @ b" by blast
    show "py_in_str k (c # cs)"
    proof (cases a)
      case Nil
      with ab have "starts_with k (c # cs)" by (auto simp: starts_with_iff)
      then show ?thesis by simp
    next
      case (Cons a0 as)
      with ab have "cs = as @ k @ b" by simp
      with Cons.IH have "py_in_str k cs" by blast
      then show ?thesis by simp
    qed
  qed
qed

lemma structure_label_range:
  "structure_label t = Some l \<Longrightarrow> l \<in> {''vo2'', ''lt2'', ''lt1'', ''easy''}"
  by (auto simp: structure_label_def Let_def split: if_splits)

lemma and_then_Inr_iff: "and_then m f = Inr y \<longleftrightarrow> (\<exists>x. m = Inr x \<and> f x = Inr y)"
  by (cases m) auto

lemma classify_from_structure_range:
  "classify_from_structure L w = Inr (Some l) \<Longrightarrow> l \<in> {''vo2'', ''lt2'', ''lt1'', ''easy''}"
  unfolding classify_from_structure_def
  by (auto simp: and_then_Inr_iff split: option.splits dest: structure_label_range)

lemma find_first:
  "i < length rules \<Longrightarrow> P (rules ! i) \<Longrightarrow> (\<forall>j<i. \<not> P (rules ! j)) \<Longrightarrow> find P rules = Some (rules ! i)"
proof (induction rules arbitrary: i)
  case Nil
  then show ?case by simp
next
  case (Cons r rs)
  show ?case
  proof (cases i)
    case 0
    with Cons.prems show ?thesis by simp
  next
    case (Suc k)
    with Cons.prems have "\<not> P r" by auto
    moreover from Suc Cons.prems have "find P rs = Some (rs ! k)"
      by (intro Cons.IH) auto
    ultimately show ?thesis using Suc by simp
  qed
qed

lemma find_none: "(\<forall>r\<in>set rules. \<not> P r) \<Longrightarrow> find P rules = None"
  by (induction rules) auto

text \<open>
  Claim C3. The keyword signal tests the rules in list order against the lower-cased text
  made of title, description, coach comments and tags (joined by single spaces); the
  first rule one of whose keywords occurs in the text gives the label, and no match gives
  \<open>other\<close>. If that label is among race, test, strength, long, sprint, it is the result
  whatever the structure says; otherwise the structural label is the result when the
  structural signal produced one, and the keyword label when it did not.
\<close>

theorem classify_with_source_combination:
  "(classify_by_keywords L w rules = Inr kw \<longrightarrow>
      (kw \<in> set PRIORITY_KEYWORD_TYPES \<longrightarrow> classify_with_source L w rules = Inr (kw, ''keyword''))
    \<and> (kw \<notin> set PRIORITY_KEYWORD_TYPES \<and> classify_from_structure L w = Inr (Some l) \<longrightarrow>
         classify_with_source L w rules = Inr (l, ''structure''))
    \<and> (kw \<notin> set PRIORITY_KEYWORD_TYPES \<and> classify_from_structure L w = Inr None \<longrightarrow>
         classify_with_source L w rules = Inr (kw, ''keyword'')))
   \<and> set PRIORITY_KEYWORD_TYPES = {''race'', ''test'', ''strength'', ''long'', ''sprint''}
   \<and> (normalized_text L w = Inr text \<longrightarrow>
        (\<forall>i<length rules.
           rule_matches text (rules ! i) \<and> (\<forall>j<i. \<not> rule_matches text (rules ! j)) \<longrightarrow>
             classify_by_keywords L w rules = Inr (fst (rules ! i)))
      \<and> ((\<forall>r\<in>set rules. \<not> rule_matches text r) \<longrightarrow>
             classify_by_keywords L w rules = Inr ''other''))
   \<and> (rule_matches text rule \<longleftrightarrow> (\<exists>k\<in>set (snd rule). \<exists>a b. text = a @ k @ b))
   \<and> (w = JObj kvs \<longrightarrow>
        normalized_text L w =
          Inr (py_lower (text_field L kvs ''title'' @ '' '' @ text_field L kvs ''description''
                         @ '' '' @ text_field L kvs ''coachComments''
                         @ '' '' @ text_field L kvs ''userTags'')))
   \<and> classify_workout L w rules =
       and_then (classify_with_source L w rules) (\<lambda>(label, source). Inr label)"
proof -
  have A: "classify_by_keywords L w rules = Inr kw \<longrightarrow>
      (kw \<in> set PRIORITY_KEYWORD_TYPES \<longrightarrow> classify_with_source L w rules = Inr (kw, ''keyword''))
    \<and> (kw \<notin> set PRIORITY_KEYWORD_TYPES \<and> classify_from_structure L w = Inr (Some l) \<longrightarrow>
         classify_with_source L w rules = Inr (l, ''structure''))
    \<and> (kw \<notin> set PRIORITY_KEYWORD_TYPES \<and> classify_from_structure L w = Inr None \<longrightarrow>
         classify_with_source L w rules = Inr (kw, ''keyword''))"
    using classify_from_structure_range [of L w l]
    by (auto simp: classify_with_source_def)
  have B: "set PRIORITY_KEYWORD_TYPES = {''race'', ''test'', ''strength'', ''long'', ''sprint''}"
    by (simp add: PRIORITY_KEYWORD_TYPES_def)
  have C: "normalized_text L w = Inr text \<longrightarrow>
        (\<forall>i<length rules.
           rule_matches text (rules ! i) \<and> (\<forall>j<i. \<not> rule_matches text (rules ! j)) \<longrightarrow>
             classify_by_keywords L w rules = Inr (fst (rules ! i)))
      \<and> ((\<forall>r\<in>set rules. \<not> rule_matches text r) \<longrightarrow>
             classify_by_keywords L w rules = Inr ''other'')"
  proof (intro impI conjI allI)
    fix i
    assume t: "normalized_text L w = Inr text" and i: "i < length rules"
      and m: "rule_matches text (rules ! i) \<and> (\<forall>j<i. \<not> rule_matches text (rules ! j))"
    from find_first [of i rules "rule_matches text"] i m
    have "find (rule_matches text) rules = Some (rules ! i)" by blast
    then show "classify_by_keywords L w rules = Inr (fst (rules ! i))"
      by (simp add: classify_by_keywords_def t split: prod.splits)
  next
    assume t: "normalized_text L w = Inr text" and n: "\<forall>r\<in>set rules. \<not> rule_matches text r"
    from find_none [OF n] show "classify_by_keywords L w rules = Inr ''other''"
      by (simp add: classify_by_keywords_def t)
  qed
  have D: "rule_matches text rule \<longleftrightarrow> (\<exists>k\<in>set (snd rule). \<exists>a b. text = a @ k @ b)"
    by (simp add: rule_matches_def list_ex_iff py_in_str_iff)
  have E: "w = JObj kvs \<longrightarrow>
        normalized_text L w =
          Inr (py_lower (text_field L kvs ''title'' @ '' '' @ text_field L kvs ''description''
                         @ '' '' @ text_field L kvs ''coachComments''
                         @ '' '' @ text_field L kvs ''userTags''))"
    by (simp add: normalized_text_def text_field_def)
  have F: "classify_workout L w rules =
       and_then (classify_with_source L w rules) (\<lambda>(label, source). Inr label)"
    by (simp add: classify_workout_def)
  show ?thesis by (intro conjI A B C D E F)
qed

lemmas classify_eval = normalized_text_def py_or_def rule_matches_def
  extract_structure_def parse_structure_value_def normalize_blocks_def
  step_intensity_pct_def as_percent_def length_to_seconds_def step_load_def tally_step_def
  block_rep_count_def tally_block_def structure_label_def structure_tally_def
  classify_from_structure_def empty_tally_def classify_zone_def subscript_def
  DEFAULT_ZONE_THRESHOLDS_def EASY_CLASSES_def

theorem classify_with_source_combination_witness:
  "classify_by_keywords sample_lib race_prep_workout TYPE_RULES = Inr ''race''
   \<and> ''race'' \<in> set PRIORITY_KEYWORD_TYPES
   \<and> rule_matches ''race day prep local race threshold effort  '' (TYPE_RULES ! 4)
   \<and> classify_from_structure sample_lib race_prep_workout = Inr (Some ''lt2'')
   \<and> classify_with_source sample_lib race_prep_workout TYPE_RULES = Inr (''race'', ''keyword'')"
proof -
  have k: "classify_by_keywords sample_lib race_prep_workout TYPE_RULES = Inr ''race''"
    by (simp add: classify_by_keywords_def race_prep_workout_def TYPE_RULES_def classify_eval str_eval)
  have p: "''race'' \<in> set PRIORITY_KEYWORD_TYPES"
    by (simp add: PRIORITY_KEYWORD_TYPES_def)
  have m: "rule_matches ''race day prep local race threshold effort  '' (TYPE_RULES ! 4)"
    by (simp add: TYPE_RULES_def rule_matches_def)
  have s: "classify_from_structure sample_lib race_prep_workout = Inr (Some ''lt2'')"
    by (simp add: race_prep_workout_def classify_eval str_eval Let_def)
  note main = classify_with_source_combination [where L = sample_lib and w = race_prep_workout
      and rules = TYPE_RULES and kw = "''race''", THEN conjunct1, THEN mp, OF k, THEN conjunct1,
      THEN mp, OF p]
  from k p m s main show ?thesis by simp
qed










lemma and_then_Inr_right [simp]: "and_then m Inr = m"
  by (cases m) auto



















lemma classify_zone_float_finite:
  "classify_zone_float (Finite r) bt ic th = classify_zone r bt ic th"
  by (auto simp: classify_zone_float_def classify_zone_def float_le_def Let_def
           split: sum.splits)




















lemma risk_scan_set:
  "f \<in> set (risk_scan D table) \<longleftrightarrow> (\<exists>i. spike_at D table i f)"
proof (induction D table rule: risk_scan.induct)
  case (1 D pk pv ck cv rest)
  let ?t = "(ck, cv) # rest"
  let ?tab = "(pk, pv) # ?t"
  have shift: "spike_at D ?tab (Suc j) f \<longleftrightarrow> spike_at D ?t j f" for j
    by (simp add: spike_at_def)
  have zero: "spike_at D ?tab 0 f \<longleftrightarrow>
      (0 < pv \<and> 40 \<le> increase_of pv cv \<and> f = spike D ck (increase_of pv cv))"
    by (simp add: spike_at_def)
  have "(\<exists>i. spike_at D ?tab i f) \<longleftrightarrow> spike_at D ?tab 0 f \<or> (\<exists>j. spike_at D ?tab (Suc j) f)"
    by (metis not0_implies_Suc)
  also have "\<dots> \<longleftrightarrow> (0 < pv \<and> 40 \<le> increase_of pv cv \<and> f = spike D ck (increase_of pv cv))
                  \<or> (\<exists>j. spike_at D ?t j f)"
    by (simp only: zero shift)
  also have "\<dots> \<longleftrightarrow> f \<in> set (risk_scan D ?tab)"
    using "1.IH" by auto
  finally show ?case by blast
qed (simp_all add: spike_at_def)

lemma spike_fields:
  "week (spike D k inc) = k"
  "severity (spike D k inc) = (if 60 \<le> inc then ''high'' else ''medium'')"
  "recommendation (spike D k inc) = ''Consider a recovery week or reducing intensity density''"
  "factor_type (spike D k inc) = ''hard_session_spike''"
  "increase_pct (spike D k inc) = round1 D inc"
  by (simp_all add: spike_def)

lemma risk_scan_week_iff:
  assumes "distinct (map fst table)" "Suc i < length table"
  shows "(\<exists>f\<in>set (risk_scan D table). week f = fst (table ! Suc i)) \<longleftrightarrow>
         (0 < snd (table ! i)
          \<and> 40 \<le> increase_of (snd (table ! i)) (snd (table ! Suc i)))"
proof
  assume "\<exists>f\<in>set (risk_scan D table). week f = fst (table ! Suc i)"
  then obtain f j where j: "spike_at D table j f" and w: "week f = fst (table ! Suc i)"
    by (auto simp: risk_scan_set)
  from j have jl: "Suc j < length table" and
    fw: "week f = fst (table ! Suc j)" by (simp_all add: spike_at_def spike_fields)
  from fw w have "map fst table ! Suc j = map fst table ! Suc i"
    using jl assms(2) by simp
  moreover have "Suc j < length (map fst table)" "Suc i < length (map fst table)"
    using jl assms(2) by simp_all
  ultimately have "Suc j = Suc i"
    using nth_eq_iff_index_eq [OF assms(1)] by blast
  with j show "0 < snd (table ! i) \<and> 40 \<le> increase_of (snd (table ! i)) (snd (table ! Suc i))"
    by (simp add: spike_at_def)
next
  assume c: "0 < snd (table ! i) \<and> 40 \<le> increase_of (snd (table ! i)) (snd (table ! Suc i))"
  let ?f = "spike D (fst (table ! Suc i)) (increase_of (snd (table ! i)) (snd (table ! Suc i)))"
  from c assms(2) have "spike_at D table i ?f" by (simp add: spike_at_def)
  then have "?f \<in> set (risk_scan D table)" by (auto simp: risk_scan_set)
  moreover have "week ?f = fst (table ! Suc i)" by (simp add: spike_fields)
  ultimately show "\<exists>f\<in>set (risk_scan D table). week f = fst (table ! Suc i)" by blast
qed

lemma set_bump_keys: "fst ` set (bump k f t) = insert k (fst ` set t)"
  by (induction k f t rule: bump.induct) auto

lemma distinct_bump: "distinct (map fst t) \<Longrightarrow> distinct (map fst (bump k f t))"
proof (induction k f t rule: bump.induct)
  case (1 key f)
  then show ?case by simp
next
  case (2 key f k row rest)
  then show ?case
    using set_bump_keys [of key f rest] by (auto simp: image_iff)
qed

lemma weekly_day_distinct:
  "weekly_day D st weekly day = Inr weekly' \<Longrightarrow> distinct (map fst weekly) \<Longrightarrow>
   distinct (map fst weekly')"
  by (auto simp: weekly_day_def Let_def and_then_Inr_iff intro!: distinct_bump)

lemma weekly_days_distinct:
  "weekly_days D st weekly days = Inr weekly' \<Longrightarrow> distinct (map fst weekly) \<Longrightarrow>
   distinct (map fst weekly')"
proof (induction days arbitrary: weekly)
  case Nil
  then show ?case by simp
next
  case (Cons day days)
  from Cons.prems(1) obtain w1 where 1: "weekly_day D st weekly day = Inr w1"
    and 2: "weekly_days D st w1 days = Inr weekly'"
    by (auto simp: and_then_Inr_iff)
  from Cons.IH [OF 2 weekly_day_distinct [OF 1 Cons.prems(2)]] show ?case .
qed

lemma distinct_keys_sort_key:
  "distinct (map fst t) \<Longrightarrow> distinct (map fst (sort_key fst t))"
  by (simp add: distinct_map)

lemma analyze_patterns_risk:
  assumes "analyze_patterns L D ws ms ir ca = Inr p"
  shows "sorted (map fst (weekly_load p)) \<and> distinct (map fst (weekly_load p))
     \<and> (ir \<longrightarrow> risk_factors p =
            Some (risk_scan D (map (\<lambda>(k, row). (k, total_hard row)) (weekly_load p))))
     \<and> (\<not> ir \<longrightarrow> risk_factors p = None)"
proof -
  from assms obtain st weekly where
    w: "weekly_days D st [] (sort (remdups (all_dates st))) = Inr weekly"
    and p: "p = \<lparr> weekly_load = sort_key fst weekly,
                   risk_factors = (if ir then Some (risk_scan D (hard_table weekly)) else None) \<rparr>"
    unfolding analyze_patterns_def Let_def
    by (auto simp: and_then_Inr_iff)
  from weekly_days_distinct [OF w] have d: "distinct (map fst weekly)" by simp
  have "sort_key fst (sort_key fst weekly) = sort_key fst weekly"
    by (simp add: sorted_sort_key sort_key_id_if_sorted)
  then show ?thesis
    using d by (simp add: p hard_table_def sorted_sort_key distinct_keys_sort_key)
qed

text \<open>
  Claim C8. With injury-risk mode requested, \<open>analyze_patterns\<close> reports the factors that
  the scan over the weekly table in sorted key order finds, and nothing is reported
  without the mode. For every pair of consecutive keys of the table, a factor is emitted
  for the later week if and only if the earlier week's \<open>total_hard\<close> is positive and the
  percent increase is at least 40 (the keys of the table being distinct, the factor is
  found by its week); its severity is \<open>high\<close> exactly when the increase is at least 60
  and \<open>medium\<close> otherwise, and it carries the recovery recommendation.
\<close>

theorem injury_risk_factors:
  "(f \<in> set (risk_scan D table) \<longleftrightarrow>
      (\<exists>i. Suc i < length table \<and> 0 < snd (table ! i)
           \<and> 40 \<le> increase_of (snd (table ! i)) (snd (table ! Suc i))
           \<and> f = spike D (fst (table ! Suc i))
                          (increase_of (snd (table ! i)) (snd (table ! Suc i)))))
   \<and> (distinct (map fst table) \<and> Suc i < length table \<longrightarrow>
        ((\<exists>f\<in>set (risk_scan D table). week f = fst (table ! Suc i)) \<longleftrightarrow>
         (0 < snd (table ! i)
          \<and> 40 \<le> increase_of (snd (table ! i)) (snd (table ! Suc i)))))
   \<and> increase_of prev_val curr_val =
        real_of_int (curr_val - prev_val) / real_of_int prev_val * 100
   \<and> week (spike D k inc) = k
   \<and> severity (spike D k inc) = (if 60 \<le> inc then ''high'' else ''medium'')
   \<and> recommendation (spike D k inc) = ''Consider a recovery week or reducing intensity density''
   \<and> (analyze_patterns L D ws ms ir ca = Inr p \<longrightarrow>
        sorted (map fst (weekly_load p)) \<and> distinct (map fst (weekly_load p))
        \<and> (ir \<longrightarrow> risk_factors p =
               Some (risk_scan D (map (\<lambda>(k, row). (k, total_hard row)) (weekly_load p))))
        \<and> (\<not> ir \<longrightarrow> risk_factors p = None))"
proof -
  have A: "f \<in> set (risk_scan D table) \<longleftrightarrow>
      (\<exists>i. Suc i < length table \<and> 0 < snd (table ! i)
           \<and> 40 \<le> increase_of (snd (table ! i)) (snd (table ! Suc i))
           \<and> f = spike D (fst (table ! Suc i))
                          (increase_of (snd (table ! i)) (snd (table ! Suc i))))"
    by (simp add: risk_scan_set spike_at_def)
  have B: "distinct (map fst table) \<and> Suc i < length table \<longrightarrow>
        ((\<exists>f\<in>set (risk_scan D table). week f = fst (table ! Suc i)) \<longleftrightarrow>
         (0 < snd (table ! i)
          \<and> 40 \<le> increase_of (snd (table ! i)) (snd (table ! Suc i))))"
    using risk_scan_week_iff by blast
  have C: "analyze_patterns L D ws ms ir ca = Inr p \<longrightarrow>
        sorted (map fst (weekly_load p)) \<and> distinct (map fst (weekly_load p))
        \<and> (ir \<longrightarrow> risk_factors p =
               Some (risk_scan D (map (\<lambda>(k, row). (k, total_hard row)) (weekly_load p))))
        \<and> (\<not> ir \<longrightarrow> risk_factors p = None)"
    using analyze_patterns_risk by blast
  show ?thesis
    by (intro conjI A B C spike_fields increase_of_def)
qed

lemma show_nat_eval: "show_nat 2026 = ''2026''" "show_nat 6 = ''6''" "show_nat 7 = ''7''" "show_nat 8 = ''8''"
  by (simp_all add: show_nat.simps)

lemma spike_week_keys:
  "week_key sample_dates ''2026-02-03'' = Inr ''2026-W06''"
  "week_key sample_dates ''2026-02-05'' = Inr ''2026-W06''"
  "week_key sample_dates ''2026-02-10'' = Inr ''2026-W07''"
  "week_key sample_dates ''2026-02-12'' = Inr ''2026-W07''"
  "week_key sample_dates ''2026-02-14'' = Inr ''2026-W07''"
  "week_key sample_dates ''2026-02-17'' = Inr ''2026-W08''"
  by (simp_all add: week_key_def sample_dates_def february_2026_def week_key_of_def show_nat_eval)

lemma spike_rows: "run_bike_rows spike_workouts = Inr spike_workouts"
  by (simp add: spike_workouts_def run_workout_def workout_sport_def sport_of_number_def)

lemma spike_rows_sorted: "sort_key (day_text sample_lib) spike_workouts =
   [run_workout ''2026-02-03'' ''vo2'', run_workout ''2026-02-05'' ''lt2'',
    run_workout ''2026-02-10'' ''lt2'', run_workout ''2026-02-12'' ''vo2'',
    run_workout ''2026-02-14'' ''lt2'', run_workout ''2026-02-17'' ''lt2'']"
  by (simp add: spike_workouts_def run_workout_def day_text_def getd_def)

lemma spike_workouts_report:
  "(case analyze_patterns sample_lib sample_dates spike_workouts False True False of
      Inr p \<Rightarrow> map (\<lambda>(k, row). (k, total_hard row)) (weekly_load p) = spike_table
               \<and> risk_factors p = Some [spike sample_dates ''2026-W07'' 50]
    | Inl e \<Rightarrow> False)
   \<and> (case analyze_patterns sample_lib sample_dates spike_workouts False False False of
      Inr p \<Rightarrow> risk_factors p = None
    | Inl e \<Rightarrow> False)"
  by (simp add: analyze_patterns_def spike_rows spike_rows_sorted collect_row_def run_workout_def day_text_def getd_def
       classification_type_def py_or_def workout_sport_def sport_of_number_def spike_week_keys weekly_day_def
       day_intensity_def intensity_order_def hard_table_def spike_table_def increase_of_def empty_week_def Let_def)

theorem injury_risk_factors_witness:
  "distinct (map fst spike_table) \<and> Suc 0 < length spike_table
   \<and> 0 < snd (spike_table ! 0)
   \<and> 40 \<le> increase_of (snd (spike_table ! 0)) (snd (spike_table ! Suc 0))
   \<and> (\<exists>f\<in>set (risk_scan sample_dates spike_table). week f = ''2026-W07'')
   \<and> (\<exists>p. analyze_patterns sample_lib sample_dates spike_workouts False True False = Inr p
         \<and> map (\<lambda>(k, row). (k, total_hard row)) (weekly_load p) = spike_table
         \<and> risk_factors p = Some (risk_scan sample_dates spike_table))"
proof -
  have h: "distinct (map fst spike_table) \<and> Suc 0 < length spike_table"
    by (simp add: spike_table_def)
  have c: "0 < snd (spike_table ! 0)
      \<and> 40 \<le> increase_of (snd (spike_table ! 0)) (snd (spike_table ! Suc 0))"
    by (simp add: spike_table_def increase_of_def)
  note main = injury_risk_factors [where D = sample_dates and table = spike_table and i = 0]
  from main [THEN conjunct2, THEN conjunct1, THEN mp, OF h] c
  have e: "\<exists>f\<in>set (risk_scan sample_dates spike_table). week f = ''2026-W07''"
    by (simp add: spike_table_def)
  from spike_workouts_report obtain p where
    p: "analyze_patterns sample_lib sample_dates spike_workouts False True False = Inr p"
    and t: "map (\<lambda>(k, row). (k, total_hard row)) (weekly_load p) = spike_table"
    by (auto split: sum.splits)
  from injury_risk_factors [where L = sample_lib and D = sample_dates and ws = spike_workouts
      and ms = False and ir = True and ca = False and p = p] p t
  have "risk_factors p = Some (risk_scan sample_dates spike_table)" by simp
  with h c e p t show ?thesis by blast
qed











end
